theory Spec2Isabelle
  imports Main "HOL-Library.Word" "HOL-Library.AList"
begin

section \<open>Go primitives used by the orchestrator\<close>

text \<open>
  The orchestrator is written in Go. A Go \<open>map[string]string\<close> is modelled as an
  association list with \<open>map_of\<close> as its lookup. Indexing a Go map at a key it does not
  hold yields the zero value, the empty string: \<open>go_index\<close>.
\<close>

type_synonym strmap = "(string \<times> string) list"

definition go_index :: "strmap \<Rightarrow> string \<Rightarrow> string" where
  "go_index m k = (case map_of m k of None \<Rightarrow> [] | Some v \<Rightarrow> v)"

text \<open>\<open>strings.HasSuffix\<close> and the formatting verb \<open>%d\<close> of \<open>fmt.Sprintf\<close>.\<close>

definition HasSuffix :: "string \<Rightarrow> string \<Rightarrow> bool" where
  "HasSuffix s suf = (length suf \<le> length s \<and> drop (length s - length suf) s = suf)"

definition digit_char :: "nat \<Rightarrow> char" where
  "digit_char d = char_of (48 + d)"

fun show_nat :: "nat \<Rightarrow> string" where
  "show_nat n = (if n < 10 then [digit_char n] else show_nat (n div 10) @ [digit_char (n mod 10)])"

declare show_nat.simps [simp del]

definition show_int :: "int \<Rightarrow> string" where
  "show_int i = (if i < 0 then CHR ''-'' # show_nat (nat (- i)) else show_nat (nat i))"

text \<open>
  \<open>strconv.ParseInt(s, 10, 64)\<close>: an optional sign, then one or more decimal digits; the
  value has to fit a signed 64-bit integer. \<open>parse_uint_loop\<close> is the digit loop of
  \<open>strconv.ParseUint\<close> with its overflow checks (\<open>cutoff\<close> is \<open>maxUint64 / 10 + 1\<close>).
\<close>

datatype NumError = ErrSyntax | ErrRange

definition is_digit :: "char \<Rightarrow> bool" where
  "is_digit c = (c \<in> set ''0123456789'')"

definition digit_val :: "char \<Rightarrow> nat" where
  "digit_val c = of_char c - 48"

definition maxUint64 :: nat where
  "maxUint64 = 2 ^ 64 - 1"

fun parse_uint_loop :: "nat \<Rightarrow> string \<Rightarrow> NumError + nat" where
  "parse_uint_loop n [] = Inr n"
| "parse_uint_loop n (c # cs) =
     (if \<not> is_digit c then Inl ErrSyntax
      else if n \<ge> maxUint64 div 10 + 1 then Inl ErrRange
      else if n * 10 + digit_val c > maxUint64 then Inl ErrRange
      else parse_uint_loop (n * 10 + digit_val c) cs)"

definition ParseUint :: "string \<Rightarrow> NumError + nat" where
  "ParseUint s = (if s = [] then Inl ErrSyntax else parse_uint_loop 0 s)"

definition ParseInt :: "string \<Rightarrow> NumError + int" where
  "ParseInt s0 =
     (if s0 = [] then Inl ErrSyntax
      else
        let neg = (hd s0 = CHR ''-'');
            s = (if hd s0 = CHR ''+'' \<or> hd s0 = CHR ''-'' then tl s0 else s0)
        in case ParseUint s of
             Inl ErrSyntax \<Rightarrow> Inl ErrSyntax
           | Inl ErrRange \<Rightarrow> Inl ErrRange
           | Inr un \<Rightarrow>
               if \<not> neg \<and> un \<ge> 2 ^ 63 then Inl ErrRange
               else if neg \<and> un > 2 ^ 63 then Inl ErrRange
               else Inr (if neg then - int un else int un))"

section \<open>Runtime drivers: resource limits\<close>

text \<open>
  \<open>parseMemoryLimit\<close> of \<open>pkg/runtime/docker/docker.go\<close>; the function of the same name in
  \<open>pkg/runtime/containerd/containerd.go\<close> has the same body. The result is a Go \<open>int64\<close>:
  the product \<open>mem * multiplier\<close> is a 64-bit multiplication and wraps.
\<close>

definition parseMemoryLimit :: "string \<Rightarrow> NumError + 64 word" where
  "parseMemoryLimit memLimit0 =
     (let (multiplier, memLimit) =
            (if HasSuffix memLimit0 ''Ki'' then (1024 :: 64 word, take (length memLimit0 - 2) memLimit0)
             else if HasSuffix memLimit0 ''Mi'' then (1024 * 1024, take (length memLimit0 - 2) memLimit0)
             else if HasSuffix memLimit0 ''Gi'' then (1024 * 1024 * 1024, take (length memLimit0 - 2) memLimit0)
             else (1, memLimit0))
      in case ParseInt memLimit of
           Inl e \<Rightarrow> Inl e
         | Inr mem \<Rightarrow> Inr (word_of_int mem * multiplier))"

section \<open>The runtime port and the containerd driver\<close>

text \<open>
  \<open>pkg/runtime/interface.go\<close>: what a driver reports about a container, and the filter of
  \<open>ListContainers\<close>.
\<close>

datatype ContainerStatus =
  ContainerStatusCreated | ContainerStatusRunning | ContainerStatusPaused
  | ContainerStatusRestarting | ContainerStatusExited | ContainerStatusDead

record ContainerInfo =
  ci_ID :: string
  ci_Name :: string
  ci_Image :: string
  ci_Status :: ContainerStatus
  ci_Labels :: strmap

record ContainerFilter =
  cf_Labels :: strmap
  cf_Names :: "string list"
  cf_Status :: "ContainerStatus list"

record SystemInfo =
  si_ContainerRuntime :: string
  si_RuntimeVersion :: string
  si_KernelVersion :: string
  si_OperatingSystem :: string
  si_Architecture :: string
  si_NCPU :: int
  si_MemTotal :: int

text \<open>
  A container of a pod template (\<open>api.Container\<close>): the reconcilers read its name and its
  image. Environment, ports and resource limits go to the OCI spec of the container and
  touch neither its name nor its labels.
\<close>

record Container =
  c_Name :: string
  c_Image :: string

text \<open>
  The calls the core makes through the port. A runtime state holds the containers the
  daemon knows, a fault oracle that says which calls the daemon fails, the version the
  daemon reports, and the sequence of calls received so far.
\<close>

datatype rt_call =
  ListContainersCall ContainerFilter
  | PullImageCall string
  | CreateContainerCall Container string
  | StartContainerCall string
  | StopContainerCall string int
  | RemoveContainerCall string
  | GetSystemInfoCall
  | HealthCheckCall

datatype error =
  RuntimeFailed rt_call
  | StorageReadDirFailed
  | StorageNotFound
  | StorageReadFailed
  | StorageUnmarshalFailed
  | StorageWriteFailed
  | StorageMkdirFailed
  | SliceBoundsPanic

record Runtime =
  rt_containers :: "ContainerInfo list"
  rt_fails :: "rt_call \<Rightarrow> bool"
  rt_version :: string
  rt_calls :: "rt_call list"

definition called :: "Runtime \<Rightarrow> rt_call \<Rightarrow> Runtime" where
  "called rt c = rt\<lparr>rt_calls := rt_calls rt @ [c]\<rparr>"

text \<open>\<open>strings.Contains\<close>.\<close>

definition Contains :: "string \<Rightarrow> string \<Rightarrow> bool" where
  "Contains s sub = list_ex (\<lambda>i. take (length sub) (drop i s) = sub) [0..<Suc (length s)]"

text \<open>
  \<open>matchesFilters\<close> and \<open>ListContainers\<close> of \<open>pkg/runtime/containerd/containerd.go\<close>. The
  driver inspects every container of the daemon and drops one whose inspection fails; in
  the model a call either fails as a whole or sees every container.
\<close>

definition matchesFilters :: "ContainerInfo \<Rightarrow> ContainerFilter \<Rightarrow> bool" where
  "matchesFilters info filters =
     (list_all (\<lambda>(key, val). go_index (ci_Labels info) key = val) (cf_Labels filters)
      \<and> (cf_Names filters = [] \<or> list_ex (\<lambda>name. Contains (ci_Name info) name) (cf_Names filters))
      \<and> (cf_Status filters = [] \<or> list_ex (\<lambda>status. ci_Status info = status) (cf_Status filters)))"

definition ListContainers :: "Runtime \<Rightarrow> ContainerFilter \<Rightarrow> (error + ContainerInfo list) \<times> Runtime" where
  "ListContainers rt filters =
     (if rt_fails rt (ListContainersCall filters)
      then (Inl (RuntimeFailed (ListContainersCall filters)), called rt (ListContainersCall filters))
      else (Inr (filter (\<lambda>info. matchesFilters info filters) (rt_containers rt)),
            called rt (ListContainersCall filters)))"

definition PullImage :: "Runtime \<Rightarrow> string \<Rightarrow> error option \<times> Runtime" where
  "PullImage rt img =
     (if rt_fails rt (PullImageCall img) then Some (RuntimeFailed (PullImageCall img)) else None,
      called rt (PullImageCall img))"

text \<open>
  \<open>CreateContainer\<close> of the containerd driver. The container is registered under the id
  \<open>podName-spec.Name\<close> with three labels; the daemon refuses an id it already holds. What
  the driver returns is the inspection of the new container, whose \<open>ID\<close> and \<open>Name\<close> are
  both that id.
\<close>

definition containerd_labels :: "Container \<Rightarrow> string \<Rightarrow> strmap" where
  "containerd_labels spec podName =
     [(''synthesis.pod'', podName), (''synthesis.container'', c_Name spec), (''managed-by'', ''synthesis'')]"

definition CreateContainer :: "Runtime \<Rightarrow> Container \<Rightarrow> string \<Rightarrow> (error + ContainerInfo) \<times> Runtime" where
  "CreateContainer rt spec podName =
     (let containerName = podName @ ''-'' @ c_Name spec;
          rt1 = called rt (CreateContainerCall spec podName)
      in if rt_fails rt (CreateContainerCall spec podName) \<or> containerName \<in> set (map ci_ID (rt_containers rt))
         then (Inl (RuntimeFailed (CreateContainerCall spec podName)), rt1)
         else let info = \<lparr>ci_ID = containerName, ci_Name = containerName, ci_Image = c_Image spec,
                           ci_Status = ContainerStatusCreated, ci_Labels = containerd_labels spec podName\<rparr>
              in (Inr info, rt1\<lparr>rt_containers := rt_containers rt1 @ [info]\<rparr>))"

text \<open>
  The Docker driver (\<open>pkg/runtime/docker/docker.go\<close>) labels a container with two labels
  of its own and then with every default label of the runtime configuration.
\<close>

definition docker_labels :: "strmap \<Rightarrow> Container \<Rightarrow> string \<Rightarrow> strmap" where
  "docker_labels DefaultLabels spec podName =
     foldl (\<lambda>labels (k, v). AList.update k v labels)
       [(''synthesis.pod'', podName), (''synthesis.container'', c_Name spec)] DefaultLabels"

text \<open>
  \<open>StartContainer\<close>, \<open>StopContainer\<close> and \<open>RemoveContainer\<close> load the container by its id
  and fail when the daemon does not hold it; whether the further requests to the daemon
  succeed (creating and starting the task, signalling it and waiting for the timeout,
  deleting task and container) is left to the fault oracle. A start marks the container
  running, a stop marks it exited, a remove drops it.
\<close>

definition set_status :: "string \<Rightarrow> ContainerStatus \<Rightarrow> ContainerInfo \<Rightarrow> ContainerInfo" where
  "set_status containerID st info = (if ci_ID info = containerID then info\<lparr>ci_Status := st\<rparr> else info)"

definition StartContainer :: "Runtime \<Rightarrow> string \<Rightarrow> error option \<times> Runtime" where
  "StartContainer rt containerID =
     (let rt1 = called rt (StartContainerCall containerID)
      in if rt_fails rt (StartContainerCall containerID) \<or> containerID \<notin> set (map ci_ID (rt_containers rt))
         then (Some (RuntimeFailed (StartContainerCall containerID)), rt1)
         else (None, rt1\<lparr>rt_containers := map (set_status containerID ContainerStatusRunning) (rt_containers rt1)\<rparr>))"

definition StopContainer :: "Runtime \<Rightarrow> string \<Rightarrow> int \<Rightarrow> error option \<times> Runtime" where
  "StopContainer rt containerID timeout =
     (let rt1 = called rt (StopContainerCall containerID timeout)
      in if rt_fails rt (StopContainerCall containerID timeout) \<or> containerID \<notin> set (map ci_ID (rt_containers rt))
         then (Some (RuntimeFailed (StopContainerCall containerID timeout)), rt1)
         else (None, rt1\<lparr>rt_containers := map (set_status containerID ContainerStatusExited) (rt_containers rt1)\<rparr>))"

definition RemoveContainer :: "Runtime \<Rightarrow> string \<Rightarrow> error option \<times> Runtime" where
  "RemoveContainer rt containerID =
     (let rt1 = called rt (RemoveContainerCall containerID)
      in if rt_fails rt (RemoveContainerCall containerID) \<or> containerID \<notin> set (map ci_ID (rt_containers rt))
         then (Some (RuntimeFailed (RemoveContainerCall containerID)), rt1)
         else (None, rt1\<lparr>rt_containers := filter (\<lambda>info. ci_ID info \<noteq> containerID) (rt_containers rt1)\<rparr>))"

text \<open>
  \<open>GetSystemInfo\<close> of the containerd driver asks the daemon for its version only; the
  CPU count and the memory size are the constants \<open>4\<close> and \<open>8 << 30\<close>.
\<close>

definition GetSystemInfo :: "Runtime \<Rightarrow> (error + SystemInfo) \<times> Runtime" where
  "GetSystemInfo rt =
     (if rt_fails rt GetSystemInfoCall then (Inl (RuntimeFailed GetSystemInfoCall), called rt GetSystemInfoCall)
      else (Inr \<lparr>si_ContainerRuntime = ''containerd'', si_RuntimeVersion = rt_version rt,
                 si_KernelVersion = [], si_OperatingSystem = [], si_Architecture = ''amd64'',
                 si_NCPU = 4, si_MemTotal = 8 * 2 ^ 30\<rparr>,
            called rt GetSystemInfoCall))"

definition HealthCheck :: "Runtime \<Rightarrow> error option \<times> Runtime" where
  "HealthCheck rt =
     (if rt_fails rt HealthCheckCall then Some (RuntimeFailed HealthCheckCall) else None,
      called rt HealthCheckCall)"

section \<open>API objects\<close>

text \<open>
  The resources are the Kubernetes types re-exported by \<open>pkg/api\<close>. Every one embeds the
  type and object metadata; the record \<open>Object\<close> holds the fields of both that the server
  reads or writes. A zero creation timestamp is \<open>None\<close>; a replica count is a pointer to an
  \<open>int32\<close>, \<open>None\<close> when nil.
\<close>

record Object =
  APIVersion :: string
  Kind :: string
  Name :: string
  CreationTimestamp :: "int option"

record PodSpec =
  Containers :: "Container list"

record Pod = Object +
  pod_Spec :: PodSpec

record Workload = Object +
  Replicas :: "32 word option"
  Template :: PodSpec

type_synonym Deployment = Workload
type_synonym StatefulSet = Workload

datatype ServiceType =
  ServiceTypeUnset | ServiceTypeClusterIP | ServiceTypeNodePort | ServiceTypeLoadBalancer
  | ServiceTypeExternalName

record LoadBalancerIngress =
  IP :: string

record Service = Object +
  Selector :: strmap
  svc_Type :: ServiceType
  Ingress :: "LoadBalancerIngress list"

datatype ConditionStatus = ConditionTrue | ConditionFalse | ConditionUnknown

datatype NodeConditionType = NodeReady | NodeMemoryPressure | NodeDiskPressure

record NodeCondition =
  nc_Type :: NodeConditionType
  nc_Status :: ConditionStatus
  nc_LastHeartbeatTime :: int
  nc_LastTransitionTime :: int
  nc_Reason :: string
  nc_Message :: string

record ResourceList =
  ResourceCPU :: int
  ResourceMemory :: int

record NodeSystemInfo =
  MachineID :: string
  SystemUUID :: string
  BootID :: string
  KernelVersion :: string
  OSImage :: string
  ContainerRuntimeVersion :: string
  Architecture :: string
  OperatingSystem :: string

record Node = Object +
  Capacity :: ResourceList
  Allocatable :: ResourceList
  Conditions :: "NodeCondition list"
  NodeInfo :: NodeSystemInfo

section \<open>The file storage\<close>

text \<open>
  \<open>FileStorage\<close> keeps one JSON file per resource in a directory per kind. The disk is
  modelled by what the storage can observe of it: a directory is \<open>None\<close> when reading it
  fails, and otherwise the list of its entries; the content of a file is unreadable, or
  bytes that do not unmarshal, or the manifest they unmarshal to. \<open>fs_write_fails\<close> says
  for which file names \<open>ioutil.WriteFile\<close> fails, \<open>fs_mkdir_fails\<close> whether the
  directories can be created.
\<close>

datatype 'a file_content = Unreadable | Malformed | Manifest 'a

record 'a dirent =
  de_Name :: string
  de_IsDir :: bool
  de_Content :: "'a file_content"

type_synonym 'a directory = "'a dirent list option"

record FileStorage =
  fs_pods :: "Pod directory"
  fs_deployments :: "Workload directory"
  fs_statefulsets :: "Workload directory"
  fs_services :: "Service directory"
  fs_nodes :: "Node directory"
  fs_write_fails :: "string \<Rightarrow> bool"
  fs_mkdir_fails :: bool

definition NewFileStorage :: "FileStorage \<Rightarrow> error + FileStorage" where
  "NewFileStorage disk = (if fs_mkdir_fails disk then Inl StorageMkdirFailed else Inr disk)"

text \<open>\<open>filepath.Ext\<close> on a file name: the suffix that starts at its last dot.\<close>

definition Ext :: "string \<Rightarrow> string" where
  "Ext path = (if CHR ''.'' \<in> set path
               then CHR ''.'' # rev (takeWhile (\<lambda>c. c \<noteq> CHR ''.'') (rev path)) else [])"

definition listFiles :: "'a directory \<Rightarrow> error + string list" where
  "listFiles dir =
     (case dir of
        None \<Rightarrow> Inl StorageReadDirFailed
      | Some files \<Rightarrow>
          Inr (map (\<lambda>file. take (length (de_Name file) - 5) (de_Name file))
                 (filter (\<lambda>file. \<not> de_IsDir file \<and> Ext (de_Name file) = ''.json'') files)))"

definition getObject :: "'a directory \<Rightarrow> string \<Rightarrow> error + 'a" where
  "getObject dir name =
     (case dir of
        None \<Rightarrow> Inl StorageReadFailed
      | Some files \<Rightarrow>
          (case find (\<lambda>file. de_Name file = name @ ''.json'') files of
             None \<Rightarrow> Inl StorageNotFound
           | Some file \<Rightarrow>
               if de_IsDir file then Inl StorageReadFailed
               else (case de_Content file of
                       Unreadable \<Rightarrow> Inl StorageReadFailed
                     | Malformed \<Rightarrow> Inl StorageUnmarshalFailed
                     | Manifest obj \<Rightarrow> Inr obj)))"

text \<open>
  The body shared by \<open>ListPods\<close>, \<open>ListDeployments\<close>, \<open>ListStatefulSets\<close>, \<open>ListServices\<close>
  and \<open>ListNodes\<close>: a file that cannot be loaded is skipped.
\<close>

fun load_each :: "'a directory \<Rightarrow> string list \<Rightarrow> 'a list" where
  "load_each dir [] = []"
| "load_each dir (file # files) =
     (case getObject dir file of
        Inl e \<Rightarrow> load_each dir files
      | Inr obj \<Rightarrow> obj # load_each dir files)"

definition listObjects :: "'a directory \<Rightarrow> error + 'a list" where
  "listObjects dir =
     (case listFiles dir of
        Inl e \<Rightarrow> Inl e
      | Inr files \<Rightarrow> Inr (load_each dir files))"

definition ListPods :: "FileStorage \<Rightarrow> error + Pod list" where
  "ListPods fs = listObjects (fs_pods fs)"

definition ListDeployments :: "FileStorage \<Rightarrow> error + Deployment list" where
  "ListDeployments fs = listObjects (fs_deployments fs)"

definition ListStatefulSets :: "FileStorage \<Rightarrow> error + StatefulSet list" where
  "ListStatefulSets fs = listObjects (fs_statefulsets fs)"

definition ListServices :: "FileStorage \<Rightarrow> error + Service list" where
  "ListServices fs = listObjects (fs_services fs)"

definition ListNodes :: "FileStorage \<Rightarrow> error + Node list" where
  "ListNodes fs = listObjects (fs_nodes fs)"

text \<open>\<open>storeObject\<close>: the file \<open>name.json\<close> is created or overwritten, unless the write fails.\<close>

fun write_file :: "string \<Rightarrow> 'a \<Rightarrow> 'a dirent list \<Rightarrow> 'a dirent list" where
  "write_file filename obj [] = [\<lparr>de_Name = filename, de_IsDir = False, de_Content = Manifest obj\<rparr>]"
| "write_file filename obj (file # files) =
     (if de_Name file = filename then file\<lparr>de_Content := Manifest obj\<rparr> # files
      else file # write_file filename obj files)"

definition storeObject :: "(string \<Rightarrow> bool) \<Rightarrow> 'a directory \<Rightarrow> string \<Rightarrow> 'a \<Rightarrow> error option \<times> 'a directory" where
  "storeObject write_fails dir name obj =
     (case dir of
        None \<Rightarrow> (Some StorageWriteFailed, dir)
      | Some files \<Rightarrow>
          if write_fails (name @ ''.json'') \<or> list_ex (\<lambda>file. de_Name file = name @ ''.json'' \<and> de_IsDir file) files
          then (Some StorageWriteFailed, dir)
          else (None, Some (write_file (name @ ''.json'') obj files)))"





definition StoreNode :: "FileStorage \<Rightarrow> Node \<Rightarrow> error option \<times> FileStorage" where
  "StoreNode fs node =
     (let (err, dir) = storeObject (fs_write_fails fs) (fs_nodes fs) (Name node) node
      in (err, fs\<lparr>fs_nodes := dir\<rparr>))"

section \<open>The server state and its start\<close>

text \<open>
  \<open>Server\<close> of \<open>pkg/server\<close>: the runtime, the storage and one map per kind. A map is
  an association list with distinct keys, read with \<open>map_of\<close> and written with
  \<open>AList.update\<close>; a \<open>range\<close> loop visits it in the order of the list, which stands for
  whatever order Go picks. Lines written with \<open>log.Printf\<close> are left out.
\<close>

record Server =
  runtime :: Runtime
  storage :: FileStorage
  pods :: "(string \<times> Pod) list"
  deployments :: "(string \<times> Deployment) list"
  statefulsets :: "(string \<times> StatefulSet) list"
  services :: "(string \<times> Service) list"
  nodes :: "(string \<times> Node) list"

definition install :: "(string \<times> 'a Object_scheme) list \<Rightarrow> 'a Object_scheme list \<Rightarrow> (string \<times> 'a Object_scheme) list" where
  "install m objs = foldl (\<lambda>m obj. AList.update (Name obj) obj m) m objs"

definition loadState :: "Server \<Rightarrow> error + Server" where
  "loadState s =
     (case ListPods (storage s) of
        Inl e \<Rightarrow> Inl e
      | Inr podList \<Rightarrow>
          (let s1 = s\<lparr>pods := install (pods s) podList\<rparr>
           in (case ListDeployments (storage s1) of
                 Inl e \<Rightarrow> Inl e
               | Inr deploymentList \<Rightarrow>
                   (let s2 = s1\<lparr>deployments := install (deployments s1) deploymentList\<rparr>
                    in (case ListStatefulSets (storage s2) of
                          Inl e \<Rightarrow> Inl e
                        | Inr statefulsetList \<Rightarrow>
                            (let s3 = s2\<lparr>statefulsets := install (statefulsets s2) statefulsetList\<rparr>
                             in (case ListServices (storage s3) of
                                   Inl e \<Rightarrow> Inl e
                                 | Inr serviceList \<Rightarrow>
                                     Inr (s3\<lparr>services := install (services s3) serviceList\<rparr>))))))))"

definition NewServer :: "FileStorage \<Rightarrow> Runtime \<Rightarrow> error + Server" where
  "NewServer disk rt =
     (case NewFileStorage disk of
        Inl e \<Rightarrow> Inl e
      | Inr store \<Rightarrow>
          loadState \<lparr>runtime = rt, storage = store, pods = [], deployments = [],
                     statefulsets = [], services = [], nodes = []\<rparr>)"

text \<open>
  \<open>runServer\<close> of \<open>cmd/synthesis-server/main.go\<close> up to the point where the server
  serves: a failed health check and a failed \<open>NewServer\<close> both end in \<open>log.Fatalf\<close>.
\<close>

datatype startup = Fatal error | Serving Server

definition runServer :: "FileStorage \<Rightarrow> Runtime \<Rightarrow> startup" where
  "runServer disk rt =
     (case HealthCheck rt of
        (Some e, rt1) \<Rightarrow> Fatal e
      | (None, rt1) \<Rightarrow>
          (case NewServer disk rt1 of
             Inl e \<Rightarrow> Fatal e
           | Inr srv \<Rightarrow> Serving srv))"

section \<open>The workload controller\<close>

text \<open>
  \<open>createPodFromTemplate\<close> of \<open>pkg/server/controllers.go\<close>. A failed pull is only
  logged. After a successful start the log line prints \<open>container.ID[:12]\<close>; slicing a
  Go string beyond its length panics, and nothing recovers the panic.
\<close>

definition podName :: "string \<Rightarrow> int \<Rightarrow> string" where
  "podName workloadName replica = workloadName @ ''-'' @ show_int replica"

fun create_containers :: "Runtime \<Rightarrow> string \<Rightarrow> Container list \<Rightarrow> error option \<times> Runtime" where
  "create_containers rt pod [] = (None, rt)"
| "create_containers rt pod (containerSpec # rest) =
     (let rt1 = snd (PullImage rt (c_Image containerSpec))
      in case CreateContainer rt1 containerSpec pod of
           (Inl e, rt2) \<Rightarrow> (Some e, rt2)
         | (Inr container, rt2) \<Rightarrow>
             (case StartContainer rt2 (ci_ID container) of
                (Some e, rt3) \<Rightarrow> (Some e, snd (RemoveContainer rt3 (ci_ID container)))
              | (None, rt3) \<Rightarrow>
                  if length (ci_ID container) < 12 then (Some SliceBoundsPanic, rt3)
                  else create_containers rt3 pod rest))"

definition createPodFromTemplate :: "Runtime \<Rightarrow> string \<Rightarrow> PodSpec \<Rightarrow> int \<Rightarrow> error option \<times> Runtime" where
  "createPodFromTemplate rt workloadName template replica =
     create_containers rt (podName workloadName replica) (Containers template)"

text \<open>
  The scale-up loop, over the replica numbers it passes to \<open>createPodFromTemplate\<close>: an
  error is logged and the loop goes on; a panic leaves it.
\<close>

fun scale_up :: "Runtime \<Rightarrow> string \<Rightarrow> PodSpec \<Rightarrow> int list \<Rightarrow> error option \<times> Runtime" where
  "scale_up rt workloadName template [] = (None, rt)"
| "scale_up rt workloadName template (replica # replicas) =
     (let (err, rt1) = createPodFromTemplate rt workloadName template replica
      in if err = Some SliceBoundsPanic then (err, rt1)
         else scale_up rt1 workloadName template replicas)"

text \<open>
  The scale-down loop, over the containers it visits: stop with a timeout of 30 seconds;
  when the stop fails the container is skipped, otherwise it is removed.
\<close>

fun scale_down :: "Runtime \<Rightarrow> ContainerInfo list \<Rightarrow> Runtime" where
  "scale_down rt [] = rt"
| "scale_down rt (container # rest) =
     (case StopContainer rt (ci_ID container) 30 of
        (Some e, rt1) \<Rightarrow> scale_down rt1 rest
      | (None, rt1) \<Rightarrow> scale_down (snd (RemoveContainer rt1 (ci_ID container))) rest)"

text \<open>
  \<open>reconcileDeployment\<close> and \<open>reconcileStatefulSet\<close> have the same body up to the label
  key of the filter. The counts are \<open>int32\<close>: \<open>currentReplicas\<close> is the converted length
  of the listing, the comparisons are signed, the differences wrap. The replica numbers of
  the scale-up loop are \<open>int(currentReplicas) + i\<close> for \<open>i < needed\<close>; the scale-down loop
  visits \<open>currentContainers[i]\<close> for \<open>i < excess\<close> and \<open>i < len(currentContainers)\<close>.
\<close>

definition workload_filter :: "string \<Rightarrow> string \<Rightarrow> ContainerFilter" where
  "workload_filter labelKey workloadName =
     \<lparr>cf_Labels = [(labelKey, workloadName)], cf_Names = [], cf_Status = []\<rparr>"

definition scale_up_replicas :: "32 word \<Rightarrow> 32 word \<Rightarrow> int list" where
  "scale_up_replicas currentReplicas desiredReplicas =
     map (\<lambda>i. sint currentReplicas + int i) [0..<nat (sint (desiredReplicas - currentReplicas))]"

definition scale_down_victims :: "32 word \<Rightarrow> 32 word \<Rightarrow> ContainerInfo list \<Rightarrow> ContainerInfo list" where
  "scale_down_victims currentReplicas desiredReplicas currentContainers =
     take (nat (sint (currentReplicas - desiredReplicas))) currentContainers"

definition reconcileWorkload :: "string \<Rightarrow> Runtime \<Rightarrow> Workload \<Rightarrow> error option \<times> Runtime" where
  "reconcileWorkload labelKey rt workload =
     (case ListContainers rt (workload_filter labelKey (Name workload)) of
        (Inl e, rt1) \<Rightarrow> (Some e, rt1)
      | (Inr currentContainers, rt1) \<Rightarrow>
          let desiredReplicas = (case Replicas workload of None \<Rightarrow> 1 | Some r \<Rightarrow> r);
              currentReplicas = (word_of_nat (length currentContainers) :: 32 word);
              (err, rt2) =
                (if sint currentReplicas < sint desiredReplicas
                 then scale_up rt1 (Name workload) (Template workload)
                        (scale_up_replicas currentReplicas desiredReplicas)
                 else (None, rt1))
          in if err = Some SliceBoundsPanic then (err, rt2)
             else if sint currentReplicas > sint desiredReplicas
             then (None, scale_down rt2 (scale_down_victims currentReplicas desiredReplicas currentContainers))
             else (None, rt2))"

definition reconcileDeployment :: "Runtime \<Rightarrow> Deployment \<Rightarrow> error option \<times> Runtime" where
  "reconcileDeployment = reconcileWorkload ''synthesis.deployment''"

definition reconcileStatefulSet :: "Runtime \<Rightarrow> StatefulSet \<Rightarrow> error option \<times> Runtime" where
  "reconcileStatefulSet = reconcileWorkload ''synthesis.statefulset''"

fun reconcile_each :: "(Runtime \<Rightarrow> Workload \<Rightarrow> error option \<times> Runtime) \<Rightarrow> Runtime \<Rightarrow> Workload list \<Rightarrow> error option \<times> Runtime" where
  "reconcile_each reconcile rt [] = (None, rt)"
| "reconcile_each reconcile rt (workload # rest) =
     (let (err, rt1) = reconcile rt workload
      in if err = Some SliceBoundsPanic then (err, rt1)
         else reconcile_each reconcile rt1 rest)"

definition reconcileWorkloads :: "Server \<Rightarrow> error option \<times> Server" where
  "reconcileWorkloads s =
     (let (err1, rt1) = reconcile_each reconcileDeployment (runtime s) (map snd (deployments s))
      in if err1 = Some SliceBoundsPanic then (err1, s\<lparr>runtime := rt1\<rparr>)
         else let (err2, rt2) = reconcile_each reconcileStatefulSet rt1 (map snd (statefulsets s))
              in (err2, s\<lparr>runtime := rt2\<rparr>))"

section \<open>The service controller\<close>

definition matchesSelector :: "strmap \<Rightarrow> strmap \<Rightarrow> bool" where
  "matchesSelector containerLabels selector =
     list_all (\<lambda>(key, val). go_index containerLabels key = val) selector"

definition managed_filter :: ContainerFilter where
  "managed_filter = \<lparr>cf_Labels = [(''managed-by'', ''synthesis'')], cf_Names = [], cf_Status = []\<rparr>"

definition findTargetContainers :: "Runtime \<Rightarrow> strmap \<Rightarrow> (error + ContainerInfo list) \<times> Runtime" where
  "findTargetContainers rt selector =
     (case ListContainers rt managed_filter of
        (Inl e, rt1) \<Rightarrow> (Inl e, rt1)
      | (Inr allContainers, rt1) \<Rightarrow>
          (Inr (filter (\<lambda>container. matchesSelector (ci_Labels container) selector) allContainers), rt1))"

definition updateServiceStatus :: "Server \<Rightarrow> Service \<Rightarrow> ContainerInfo list \<Rightarrow> Server" where
  "updateServiceStatus s service containers =
     (case map_of (services s) (Name service) of
        None \<Rightarrow> s
      | Some stored \<Rightarrow>
          if svc_Type service = ServiceTypeNodePort
          then s\<lparr>services := AList.update (Name service)
                               (stored\<lparr>Ingress := [\<lparr>IP = ''127.0.0.1''\<rparr>]\<rparr>) (services s)\<rparr>
          else s)"

definition reconcileService :: "Server \<Rightarrow> Service \<Rightarrow> error option \<times> Server" where
  "reconcileService s service =
     (case findTargetContainers (runtime s) (Selector service) of
        (Inl e, rt1) \<Rightarrow> (Some e, s\<lparr>runtime := rt1\<rparr>)
      | (Inr targetContainers, rt1) \<Rightarrow>
          (None, updateServiceStatus (s\<lparr>runtime := rt1\<rparr>) service targetContainers))"

fun reconcile_services :: "Server \<Rightarrow> Service list \<Rightarrow> Server" where
  "reconcile_services s [] = s"
| "reconcile_services s (service # rest) = reconcile_services (snd (reconcileService s service)) rest"

definition reconcileServices :: "Server \<Rightarrow> Server" where
  "reconcileServices s = reconcile_services s (map snd (services s))"

section \<open>The node status reporter\<close>

text \<open>\<open>updateNodeStatus\<close>; \<open>now\<close> is the reading of the clock.\<close>

definition updateNodeStatus :: "Server \<Rightarrow> int \<Rightarrow> Server" where
  "updateNodeStatus s now =
     (case GetSystemInfo (runtime s) of
        (Inl e, rt1) \<Rightarrow> s\<lparr>runtime := rt1\<rparr>
      | (Inr info, rt1) \<Rightarrow>
          let node = \<lparr>APIVersion = ''v1'', Kind = ''Node'', Name = ''local-node'', CreationTimestamp = None,
                      Capacity = \<lparr>ResourceCPU = si_NCPU info, ResourceMemory = si_MemTotal info\<rparr>,
                      Allocatable = \<lparr>ResourceCPU = si_NCPU info, ResourceMemory = si_MemTotal info\<rparr>,
                      Conditions = [\<lparr>nc_Type = NodeReady, nc_Status = ConditionTrue,
                                     nc_LastHeartbeatTime = now, nc_LastTransitionTime = now,
                                     nc_Reason = ''NodeReady'', nc_Message = ''Node is ready''\<rparr>],
                      NodeInfo = \<lparr>MachineID = ''local'', SystemUUID = ''local'', BootID = ''local'',
                                   KernelVersion = si_KernelVersion info, OSImage = si_OperatingSystem info,
                                   ContainerRuntimeVersion = si_RuntimeVersion info,
                                   Architecture = si_Architecture info,
                                   OperatingSystem = si_OperatingSystem info\<rparr>\<rparr>
          in s\<lparr>runtime := rt1, nodes := AList.update ''local-node'' node (nodes s)\<rparr>)"

section \<open>The API handlers\<close>

text \<open>
  A handler takes the server state and the decoded request and gives the new state and
  the response: the status code and the value written as JSON. The request body is the
  result of \<open>decodeManifest\<close>, \<open>None\<close> when decoding fails; \<open>now\<close> is the reading of the
  clock.
\<close>

datatype body =
  PodJSON Pod | WorkloadJSON Workload | ServiceJSON Service | NodeJSON Node
  | ScaleJSON "32 word" | ErrorJSON string

record response =
  resp_status :: nat
  resp_body :: body

definition StatusOK :: nat where "StatusOK = 200"
definition StatusBadRequest :: nat where "StatusBadRequest = 400"
definition StatusNotFound :: nat where "StatusNotFound = 404"

















definition getNodeHandler :: "Server \<Rightarrow> string \<Rightarrow> response" where
  "getNodeHandler s name =
     (case map_of (nodes s) name of
        None \<Rightarrow> \<lparr>resp_status = StatusNotFound, resp_body = ErrorJSON ''Node not found''\<rparr>
      | Some node \<Rightarrow> \<lparr>resp_status = StatusOK, resp_body = NodeJSON node\<rparr>)"

text \<open>
  The scale handlers decode \<open>spec.replicas\<close> of the request (\<open>None\<close> when the body is not
  JSON), write it to the workload of that name if the map has one, and answer with a
  \<open>Scale\<close> object.
\<close>

definition scaleDeploymentHandler :: "Server \<Rightarrow> string \<Rightarrow> 32 word option \<Rightarrow> Server \<times> response" where
  "scaleDeploymentHandler s name scaleReq =
     (case scaleReq of
        None \<Rightarrow> (s, \<lparr>resp_status = StatusBadRequest, resp_body = ErrorJSON ''Invalid scale request''\<rparr>)
      | Some replicas \<Rightarrow>
          ((case map_of (deployments s) name of
              None \<Rightarrow> s
            | Some deployment \<Rightarrow>
                s\<lparr>deployments := AList.update name (deployment\<lparr>Replicas := Some replicas\<rparr>) (deployments s)\<rparr>),
           \<lparr>resp_status = StatusOK, resp_body = ScaleJSON replicas\<rparr>))"

definition scaleStatefulSetHandler :: "Server \<Rightarrow> string \<Rightarrow> 32 word option \<Rightarrow> Server \<times> response" where
  "scaleStatefulSetHandler s name scaleReq =
     (case scaleReq of
        None \<Rightarrow> (s, \<lparr>resp_status = StatusBadRequest, resp_body = ErrorJSON ''Invalid scale request''\<rparr>)
      | Some replicas \<Rightarrow>
          ((case map_of (statefulsets s) name of
              None \<Rightarrow> s
            | Some ss \<Rightarrow>
                s\<lparr>statefulsets := AList.update name (ss\<lparr>Replicas := Some replicas\<rparr>) (statefulsets s)\<rparr>),
           \<lparr>resp_status = StatusOK, resp_body = ScaleJSON replicas\<rparr>))"







section \<open>Reference notions for the properties\<close>

text \<open>
  What a directory holds that can be loaded: the manifests of its regular \<open>.json\<close> files,
  in the order of the directory.
\<close>

definition manifests :: "'a dirent list \<Rightarrow> 'a list" where
  "manifests files =
     concat (map (\<lambda>file. if \<not> de_IsDir file \<and> Ext (de_Name file) = ''.json''
                          then (case de_Content file of Manifest obj \<Rightarrow> [obj] | _ \<Rightarrow> []) else [])
               files)"

text \<open>The number a string of decimal digits denotes.\<close>

definition decimal :: "string \<Rightarrow> nat" where
  "decimal digits = foldl (\<lambda>n c. n * 10 + digit_val c) 0 digits"



text \<open>States used to run the code on concrete inputs.\<close>

definition healthy_runtime :: Runtime where
  "healthy_runtime = \<lparr>rt_containers = [], rt_fails = (\<lambda>c. False), rt_version = ''v1.7'', rt_calls = []\<rparr>"

definition empty_disk :: FileStorage where
  "empty_disk = \<lparr>fs_pods = Some [], fs_deployments = Some [], fs_statefulsets = Some [],
                  fs_services = Some [], fs_nodes = Some [], fs_write_fails = (\<lambda>f. False),
                  fs_mkdir_fails = False\<rparr>"

definition empty_server :: Server where
  "empty_server = \<lparr>runtime = healthy_runtime, storage = empty_disk, pods = [], deployments = [],
                    statefulsets = [], services = [], nodes = []\<rparr>"

definition no_info_runtime :: Runtime where
  "no_info_runtime = healthy_runtime\<lparr>rt_fails := (\<lambda>c. c = GetSystemInfoCall)\<rparr>"

definition ready_server :: Server where
  "ready_server = updateNodeStatus empty_server 50"

definition outage_server :: Server where
  "outage_server = ready_server\<lparr>runtime := no_info_runtime\<rparr>"



definition nginx :: Container where
  "nginx = \<lparr>c_Name = ''nginx'', c_Image = ''nginx:1.25''\<rparr>"

definition web_pod :: Pod where
  "web_pod = \<lparr>APIVersion = [], Kind = [], Name = ''web'', CreationTimestamp = None,
               pod_Spec = \<lparr>Containers = [nginx]\<rparr>\<rparr>"

definition unreadable_pods_disk :: FileStorage where
  "unreadable_pods_disk = empty_disk\<lparr>fs_pods := None\<rparr>"

definition local_node :: Node where
  "local_node = snd (hd (nodes ready_server))"

definition node_file_disk :: FileStorage where
  "node_file_disk = empty_disk\<lparr>fs_nodes :=
     Some [\<lparr>de_Name = ''local-node.json'', de_IsDir = False, de_Content = Manifest local_node\<rparr>]\<rparr>"

definition mixed_pods_disk :: FileStorage where
  "mixed_pods_disk = empty_disk\<lparr>fs_pods :=
     Some [\<lparr>de_Name = ''broken.json'', de_IsDir = False, de_Content = Malformed\<rparr>,
           \<lparr>de_Name = ''web.json'', de_IsDir = False, de_Content = Manifest web_pod\<rparr>,
           \<lparr>de_Name = ''notes.txt'', de_IsDir = False, de_Content = Malformed\<rparr>,
           \<lparr>de_Name = ''locked.json'', de_IsDir = False, de_Content = Unreadable\<rparr>]\<rparr>"

text \<open>A Deployment and a StatefulSet, and runtimes that hold containers labelled for them.\<close>

definition frontend :: Deployment where
  "frontend = \<lparr>APIVersion = ''apps/v1'', Kind = ''Deployment'', Name = ''frontend'',
                CreationTimestamp = Some 1, Replicas = Some 1, Template = \<lparr>Containers = [nginx]\<rparr>\<rparr>"

definition frontend_container :: ContainerInfo where
  "frontend_container =
     \<lparr>ci_ID = ''frontend-0-nginx'', ci_Name = ''frontend-0-nginx'', ci_Image = ''nginx:1.25'',
       ci_Status = ContainerStatusRunning,
       ci_Labels = [(''synthesis.pod'', ''frontend-0''), (''synthesis.container'', ''nginx''),
                    (''managed-by'', ''synthesis'')]\<rparr>"




definition after_first_tick :: Runtime where
  "after_first_tick = snd (reconcileDeployment healthy_runtime frontend)"

definition web :: Deployment where
  "web = \<lparr>APIVersion = ''apps/v1'', Kind = ''Deployment'', Name = ''web'',
           CreationTimestamp = Some 1, Replicas = Some 3, Template = \<lparr>Containers = [nginx]\<rparr>\<rparr>"

definition web_container :: "string \<Rightarrow> ContainerInfo" where
  "web_container ordinal =
     \<lparr>ci_ID = ''web-'' @ ordinal @ ''-nginx'', ci_Name = ''web-'' @ ordinal @ ''-nginx'',
       ci_Image = ''nginx:1.25'', ci_Status = ContainerStatusRunning,
       ci_Labels = [(''synthesis.pod'', ''web-'' @ ordinal), (''synthesis.container'', ''nginx''),
                    (''managed-by'', ''synthesis''), (''synthesis.deployment'', ''web''),
                    (''app'', ''web'')]\<rparr>"





text \<open>A ClusterIP service and a NodePort service over three containers labelled \<open>app=web\<close>.\<close>

definition web_svc :: Service where
  "web_svc = \<lparr>APIVersion = ''v1'', Kind = ''Service'', Name = ''web-svc'', CreationTimestamp = Some 1,
               Selector = [(''app'', ''web'')], svc_Type = ServiceTypeClusterIP, Ingress = []\<rparr>"

definition web_np :: Service where
  "web_np = \<lparr>APIVersion = ''v1'', Kind = ''Service'', Name = ''web-np'', CreationTimestamp = Some 1,
              Selector = [(''app'', ''web'')], svc_Type = ServiceTypeNodePort, Ingress = []\<rparr>"

definition three_web_runtime :: Runtime where
  "three_web_runtime =
     healthy_runtime\<lparr>rt_containers := [web_container ''0'', web_container ''1'', web_container ''2'']\<rparr>"

definition service_server :: Server where
  "service_server = empty_server\<lparr>runtime := three_web_runtime,
                                  services := [(''web-svc'', web_svc), (''web-np'', web_np)]\<rparr>"

section \<open>Auxiliary facts\<close>

lemma map_of_update_same: "map_of (AList.update k v al) k = Some v"
  by (simp add: update_conv')

lemma map_of_update_other: "k' \<noteq> k \<Longrightarrow> map_of (AList.update k v al) k' = map_of al k'"
  by (simp add: update_conv')

subsection \<open>Parsing\<close>

lemma HasSuffix_two: "HasSuffix s [a, b] \<Longrightarrow> s = take (length s - 2) s @ [a, b]"
proof -
  assume "HasSuffix s [a, b]"
  then have "drop (length s - 2) s = [a, b]" by (simp add: HasSuffix_def numeral_2_eq_2)
  then show ?thesis by (metis append_take_drop_id)
qed

lemma ParseInt_range: "ParseInt s = Inr n \<Longrightarrow> - (2 ^ 63) \<le> n \<and> n < 2 ^ 63"
  by (auto simp: ParseInt_def Let_def split: if_splits sum.splits NumError.splits)

lemma parse_uint_loop_sound:
  "parse_uint_loop acc s = Inr m \<Longrightarrow>
     list_all is_digit s \<and> m = foldl (\<lambda>n c. n * 10 + digit_val c) acc s"
proof (induction s arbitrary: acc)
  case Nil
  then show ?case by simp
next
  case (Cons c s)
  from Cons.prems have d: "is_digit c"
    and rest: "parse_uint_loop (acc * 10 + digit_val c) s = Inr m"
    by (auto split: if_splits)
  from Cons.IH [OF rest] d show ?case by simp
qed

lemma ParseUint_sound:
  "ParseUint s = Inr m \<Longrightarrow> s \<noteq> [] \<and> list_all is_digit s \<and> m = decimal s"
  using parse_uint_loop_sound [of 0 s m]
  by (auto simp: ParseUint_def decimal_def split: if_splits)

lemma ParseInt_sound:
  assumes "ParseInt s = Inr n"
  shows "\<exists>sign digits. s = sign @ digits \<and> (sign = [] \<or> sign = ''+'' \<or> sign = ''-'')
           \<and> digits \<noteq> [] \<and> list_all is_digit digits
           \<and> n = (if sign = ''-'' then - int (decimal digits) else int (decimal digits))"
proof -
  from assms have ne: "s \<noteq> []" by (auto simp: ParseInt_def split: if_splits)
  define body where "body = (if hd s = CHR ''+'' \<or> hd s = CHR ''-'' then tl s else s)"
  define sign where "sign = (if hd s = CHR ''+'' \<or> hd s = CHR ''-'' then [hd s] else [])"
  have split: "s = sign @ body" using ne by (simp add: sign_def body_def)
  from assms ne obtain un where un: "ParseUint body = Inr un"
    and n: "n = (if hd s = CHR ''-'' then - int un else int un)"
    by (auto simp: ParseInt_def Let_def body_def split: if_splits sum.splits NumError.splits)
  from ParseUint_sound [OF un] have b: "body \<noteq> []" "list_all is_digit body" "un = decimal body"
    by simp_all
  have nd: "\<not> is_digit CHR ''-''" "\<not> is_digit CHR ''+''" by (simp_all add: is_digit_def)
  have s1: "sign = [] \<or> sign = ''+'' \<or> sign = ''-''" by (auto simp: sign_def)
  have "hd s = CHR ''-'' \<longleftrightarrow> sign = ''-''"
  proof (cases "hd s = CHR ''+'' \<or> hd s = CHR ''-''")
    case True
    then show ?thesis by (auto simp: sign_def)
  next
    case False
    then show ?thesis by (simp add: sign_def)
  qed
  then have "n = (if sign = ''-'' then - int (decimal body) else int (decimal body))"
    using n b(3) by simp
  with split s1 b(1,2) show ?thesis by blast
qed

lemma sint_int64_exact:
  "- (2 ^ 63) \<le> k \<Longrightarrow> k < 2 ^ 63 \<Longrightarrow> sint (word_of_int k :: 64 word) = k"
  by (simp add: sint_sbintrunc' signed_take_bit_int_eq_self)

lemma parseMemoryLimit_cases:
  "parseMemoryLimit s =
     (case ParseInt (if HasSuffix s ''Ki'' \<or> HasSuffix s ''Mi'' \<or> HasSuffix s ''Gi''
                     then take (length s - 2) s else s) of
        Inl e \<Rightarrow> Inl e
      | Inr mem \<Rightarrow> Inr (word_of_int (mem *
           (if HasSuffix s ''Ki'' then 1024 else if HasSuffix s ''Mi'' then 1024 ^ 2
            else if HasSuffix s ''Gi'' then 1024 ^ 3 else 1))))"
  by (simp add: parseMemoryLimit_def split: sum.splits)

lemma ParseInt_512: "ParseInt ''512'' = Inr 512"
  by (simp add: ParseInt_def ParseUint_def is_digit_def digit_val_def maxUint64_def)

lemma ParseInt_2_53: "ParseInt ''9007199254740992'' = Inr 9007199254740992"
  by (simp add: ParseInt_def ParseUint_def is_digit_def digit_val_def maxUint64_def)

subsection \<open>Loading a directory\<close>

lemma Ext_suffix: "CHR ''.'' \<in> set path \<Longrightarrow> \<exists>stem. path = stem @ Ext path"
proof -
  assume dot: "CHR ''.'' \<in> set path"
  let ?P = "\<lambda>c. c \<noteq> CHR ''.''"
  have "dropWhile ?P (rev path) \<noteq> []" using dot by (simp add: dropWhile_eq_Nil_conv)
  moreover have "?P (hd (dropWhile ?P (rev path))) \<Longrightarrow> False"
    using calculation hd_dropWhile by blast
  ultimately obtain rest where d: "dropWhile ?P (rev path) = CHR ''.'' # rest"
    by (cases "dropWhile ?P (rev path)") auto
  have "rev path = takeWhile ?P (rev path) @ dropWhile ?P (rev path)" by simp
  then have "rev path = takeWhile ?P (rev path) @ CHR ''.'' # rest" using d by simp
  then have "path = rev (takeWhile ?P (rev path) @ CHR ''.'' # rest)" by (metis rev_rev_ident)
  then have "path = rev rest @ CHR ''.'' # rev (takeWhile ?P (rev path))" by simp
  then show ?thesis using dot by (auto simp: Ext_def)
qed

lemma json_name: "Ext name = ''.json'' \<Longrightarrow> take (length name - 5) name @ ''.json'' = name"
proof -
  assume e: "Ext name = ''.json''"
  then have "CHR ''.'' \<in> set name" by (auto simp: Ext_def split: if_splits)
  then obtain stem where "name = stem @ Ext name" using Ext_suffix by blast
  then have n: "name = stem @ ''.json''" using e by simp
  have "take (length (stem @ ''.json'') - 5) (stem @ ''.json'') = stem" by simp
  then show ?thesis using n by metis
qed

lemma find_distinct:
  "distinct (map de_Name files) \<Longrightarrow> file \<in> set files \<Longrightarrow>
     find (\<lambda>g. de_Name g = de_Name file) files = Some file"
proof (induction files)
  case Nil
  then show ?case by simp
next
  case (Cons a files)
  then show ?case by (auto simp: image_iff)
qed

lemma getObject_listed:
  assumes "distinct (map de_Name files)" "file \<in> set files"
    "\<not> de_IsDir file" "Ext (de_Name file) = ''.json''"
  shows "getObject (Some files) (take (length (de_Name file) - 5) (de_Name file)) =
           (case de_Content file of Unreadable \<Rightarrow> Inl StorageReadFailed
            | Malformed \<Rightarrow> Inl StorageUnmarshalFailed | Manifest obj \<Rightarrow> Inr obj)"
  using assms by (simp add: getObject_def json_name find_distinct)

lemma load_each_manifests:
  assumes "distinct (map de_Name files)"
  shows "set part \<subseteq> set files \<Longrightarrow>
     load_each (Some files)
       (map (\<lambda>file. take (length (de_Name file) - 5) (de_Name file))
          (filter (\<lambda>file. \<not> de_IsDir file \<and> Ext (de_Name file) = ''.json'') part)) = manifests part"
proof (induction part)
  case Nil
  then show ?case by (simp add: manifests_def)
next
  case (Cons a part)
  then have ih: "load_each (Some files)
       (map (\<lambda>file. take (length (de_Name file) - 5) (de_Name file))
          (filter (\<lambda>file. \<not> de_IsDir file \<and> Ext (de_Name file) = ''.json'') part)) = manifests part"
    and a: "a \<in> set files" by auto
  show ?case
  proof (cases "\<not> de_IsDir a \<and> Ext (de_Name a) = ''.json''")
    case True
    then show ?thesis using ih getObject_listed [OF assms a]
      by (cases "de_Content a") (simp_all add: manifests_def)
  next
    case False
    then show ?thesis using ih by (auto simp: manifests_def)
  qed
qed

lemma listObjects_readable:
  "distinct (map de_Name files) \<Longrightarrow> listObjects (Some files) = Inr (manifests files)"
  using load_each_manifests [of files files] by (simp add: listObjects_def listFiles_def)

lemma listObjects_Some:
  "listObjects (Some files) = Inr (load_each (Some files) (projr (listFiles (Some files))))"
  by (simp add: listObjects_def listFiles_def)

lemma listObjects_None: "listObjects None = Inl StorageReadDirFailed"
  by (simp add: listObjects_def listFiles_def)

lemma loadState_ok_iff:
  "(\<exists>s'. loadState s = Inr s') \<longleftrightarrow>
     fs_pods (storage s) \<noteq> None \<and> fs_deployments (storage s) \<noteq> None
     \<and> fs_statefulsets (storage s) \<noteq> None \<and> fs_services (storage s) \<noteq> None"
  by (cases "fs_pods (storage s)"; cases "fs_deployments (storage s)";
      cases "fs_statefulsets (storage s)"; cases "fs_services (storage s)")
     (simp_all add: loadState_def ListPods_def ListDeployments_def ListStatefulSets_def
        ListServices_def listObjects_Some listObjects_None Let_def)

lemma loadState_error: "loadState s = Inl e \<Longrightarrow> e = StorageReadDirFailed"
  by (cases "fs_pods (storage s)"; cases "fs_deployments (storage s)";
      cases "fs_statefulsets (storage s)"; cases "fs_services (storage s)")
     (simp_all add: loadState_def ListPods_def ListDeployments_def ListStatefulSets_def
        ListServices_def listObjects_Some listObjects_None Let_def)

lemma loadState_frame:
  "loadState s = Inr s' \<Longrightarrow> nodes s' = nodes s \<and> storage s' = storage s \<and> runtime s' = runtime s"
  by (auto simp: loadState_def Let_def split: sum.splits)

lemma loadState_full:
  assumes "fs_pods (storage s) = Some pf" "distinct (map de_Name pf)"
    and "fs_deployments (storage s) = Some df" "distinct (map de_Name df)"
    and "fs_statefulsets (storage s) = Some sf" "distinct (map de_Name sf)"
    and "fs_services (storage s) = Some vf" "distinct (map de_Name vf)"
  shows "loadState s = Inr (s\<lparr>pods := install (pods s) (manifests pf),
                              deployments := install (deployments s) (manifests df),
                              statefulsets := install (statefulsets s) (manifests sf),
                              services := install (services s) (manifests vf)\<rparr>)"
proof -
  have lp: "ListPods (storage s) = Inr (manifests pf)"
    using assms(1,2) by (simp add: ListPods_def listObjects_readable)
  have ld: "ListDeployments (storage s) = Inr (manifests df)"
    using assms(3,4) by (simp add: ListDeployments_def listObjects_readable)
  have ls: "ListStatefulSets (storage s) = Inr (manifests sf)"
    using assms(5,6) by (simp add: ListStatefulSets_def listObjects_readable)
  have lv: "ListServices (storage s) = Inr (manifests vf)"
    using assms(7,8) by (simp add: ListServices_def listObjects_readable)
  show ?thesis by (simp add: loadState_def Let_def lp ld ls lv)
qed

lemma NewServer_nodes: "NewServer disk rt = Inr s' \<Longrightarrow> nodes s' = []"
  by (auto simp: NewServer_def dest!: loadState_frame split: sum.splits)

lemma updateNodeStatus_storage: "storage (updateNodeStatus s now) = storage s"
  by (simp add: updateNodeStatus_def Let_def split: prod.splits sum.splits)

subsection \<open>The calls a driver operation records\<close>

lemma ListContainers_rt:
  "snd (ListContainers rt f) = called rt (ListContainersCall f)"
  by (simp add: ListContainers_def)




subsection \<open>The replica counts\<close>

lemma sint_length:
  "n < 2 ^ 31 \<Longrightarrow> sint (word_of_nat n :: 32 word) = int n"
  by (simp add: signed_of_nat signed_take_bit_int_eq_self)

lemma sint_diff_exact:
  fixes a b :: "32 word"
  assumes "0 \<le> sint b" "sint b \<le> sint a"
  shows "sint (a - b) = sint a - sint b"
proof -
  have "sint a < 2 ^ 31" using sint_lt [of a] by simp
  then have "- (2 ^ 31) \<le> sint a - sint b" "sint a - sint b < 2 ^ 31" using assms by auto
  then show ?thesis by (simp add: sint_word_diff signed_take_bit_int_eq_self)
qed


lemma scale_up_replicas_upt:
  assumes "length cs < 2 ^ 31" "int (length cs) < sint d"
  shows "scale_up_replicas (word_of_nat (length cs)) d = map int [length cs..<nat (sint d)]"
proof -
  let ?n = "length cs"
  have c: "sint (word_of_nat ?n :: 32 word) = int ?n"
    using assms(1) by (rule sint_length)
  have "sint (d - word_of_nat ?n) = sint d - int ?n"
    using sint_diff_exact [of "word_of_nat ?n" d] assms c by simp
  then have n: "nat (sint (d - word_of_nat ?n)) = nat (sint d) - ?n"
    using assms by simp
  have "map (\<lambda>i. int ?n + int i) [0..<nat (sint d) - ?n] = map int (map (\<lambda>i. i + ?n) [0..<nat (sint d) - ?n])"
    by (simp add: add.commute)
  also have "\<dots> = map int [?n..<nat (sint d)]"
    using assms by (simp add: map_add_upt)
  finally show ?thesis by (simp add: scale_up_replicas_def c n)
qed

subsection \<open>Decimal numerals\<close>

lemma show_nat_nonempty: "show_nat n \<noteq> []"
proof (cases "n < 10")
  case True
  then have "show_nat n = [digit_char n]" by (subst show_nat.simps) simp
  then show ?thesis by simp
next
  case False
  then have "show_nat n = show_nat (n div 10) @ [digit_char (n mod 10)]" by (subst show_nat.simps) simp
  then show ?thesis by simp
qed


lemma digit_char_code: "a < 10 \<Longrightarrow> (of_char (digit_char a) :: nat) = 48 + a"
proof -
  assume a: "a < 10"
  have "(of_char (char_of (48 + a)) :: nat) = (48 + a) mod 256" by (rule of_char_of)
  moreover have "48 + a < 256" using a by linarith
  ultimately show ?thesis by (simp only: digit_char_def mod_less)
qed

lemma digit_char_inj: "a < 10 \<Longrightarrow> b < 10 \<Longrightarrow> digit_char a = digit_char b \<Longrightarrow> a = b"
proof -
  assume a: "a < 10" and b: "b < 10" and e: "digit_char a = digit_char b"
  have "(of_char (digit_char a) :: nat) = of_char (digit_char b)" using e by (simp only:)
  then have "48 + a = 48 + b" using a b by (simp only: digit_char_code)
  then show ?thesis by linarith
qed


lemma show_nat_small: "n < 10 \<Longrightarrow> show_nat n = [digit_char n]"
  by (subst show_nat.simps) simp

lemma show_nat_large: "\<not> n < 10 \<Longrightarrow> show_nat n = show_nat (n div 10) @ [digit_char (n mod 10)]"
  by (subst show_nat.simps) simp

lemma show_nat_large_length: "\<not> n < 10 \<Longrightarrow> 2 \<le> length (show_nat n)"
proof -
  assume n: "\<not> n < 10"
  have "1 \<le> length (show_nat (n div 10))"
    using show_nat_nonempty [of "n div 10"] by (cases "show_nat (n div 10)") simp_all
  then show ?thesis by (simp only: show_nat_large [OF n] length_append) simp
qed

lemma show_nat_inj: "show_nat n = show_nat m \<Longrightarrow> n = m"
proof (induction n arbitrary: m rule: less_induct)
  case (less n)
  show ?case
  proof (cases "n < 10")
    case n: True
    show ?thesis
    proof (cases "m < 10")
      case True
      have "[digit_char n] = [digit_char m]"
        using less.prems show_nat_small [OF n] show_nat_small [OF True] by (simp only:)
      then have "digit_char n = digit_char m" by (simp only: list.inject)
      then show ?thesis using n True by (rule digit_char_inj [rotated 2])
    next
      case False
      have "length (show_nat n) = 1" by (simp only: show_nat_small [OF n]) simp
      moreover have "2 \<le> length (show_nat m)" using False by (rule show_nat_large_length)
      ultimately show ?thesis using less.prems by simp
    qed
  next
    case n: False
    show ?thesis
    proof (cases "m < 10")
      case True
      have "length (show_nat m) = 1" by (simp only: show_nat_small [OF True]) simp
      moreover have "2 \<le> length (show_nat n)" using n by (rule show_nat_large_length)
      ultimately show ?thesis using less.prems by simp
    next
      case False
      have "show_nat (n div 10) @ [digit_char (n mod 10)] = show_nat (m div 10) @ [digit_char (m mod 10)]"
        using less.prems show_nat_large [OF n] show_nat_large [OF False] by (simp only:)
      then have q: "show_nat (n div 10) = show_nat (m div 10)"
        and r: "digit_char (n mod 10) = digit_char (m mod 10)" by (simp_all only: append1_eq_conv)
      have "n div 10 < n" using n by simp
      then have "n div 10 = m div 10" using less.IH q by blast
      moreover have "n mod 10 = m mod 10"
        using r by (rule digit_char_inj [rotated 2]) simp_all
      ultimately show ?thesis by (metis div_mult_mod_eq)
    qed
  qed
qed

lemma podName_nat: "podName workloadName (int k) = workloadName @ ''-'' @ show_nat k"
  by (simp add: podName_def show_int_def)

lemma podName_inj: "podName workloadName (int k) = podName workloadName (int j) \<Longrightarrow> k = j"
proof -
  assume "podName workloadName (int k) = podName workloadName (int j)"
  then have "show_nat k = show_nat j" by (simp only: podName_nat same_append_eq)
  then show ?thesis by (rule show_nat_inj)
qed

lemma show_nat_digits: "show_nat 0 = ''0''" "show_nat (Suc 0) = ''1''" "show_nat 2 = ''2''"
  by code_simp+

lemma podName_digits:
  "podName w 0 = w @ ''-0''" "podName w 1 = w @ ''-1''" "podName w 2 = w @ ''-2''"
  by (simp_all add: podName_def show_int_def show_nat_digits)



subsection \<open>One reconciliation of a workload\<close>


lemma scale_up_err:
  "fst (scale_up rt workloadName template replicas) = None
   \<or> fst (scale_up rt workloadName template replicas) = Some SliceBoundsPanic"
proof (induction replicas arbitrary: rt)
  case Nil
  then show ?case by simp
next
  case (Cons r replicas)
  obtain err rt1 where one: "createPodFromTemplate rt workloadName template r = (err, rt1)"
    by (cases "createPodFromTemplate rt workloadName template r")
  show ?case using Cons.IH [of rt1] one by (cases "err = Some SliceBoundsPanic") simp_all
qed

lemma reconcileWorkload_scale_up:
  assumes "fst (ListContainers rt (workload_filter key (Name w))) = Inr cs"
    and "d = (case Replicas w of None \<Rightarrow> 1 | Some r \<Rightarrow> r)"
    and "length cs < 2 ^ 31" "int (length cs) < sint d"
  shows "reconcileWorkload key rt w =
           scale_up (called rt (ListContainersCall (workload_filter key (Name w))))
             (Name w) (Template w) (map int [length cs..<nat (sint d)])"
proof -
  let ?up = "scale_up (called rt (ListContainersCall (workload_filter key (Name w))))
             (Name w) (Template w) (map int [length cs..<nat (sint d)])"
  have l: "ListContainers rt (workload_filter key (Name w))
             = (Inr cs, called rt (ListContainersCall (workload_filter key (Name w))))"
    using assms(1) ListContainers_rt [of rt "workload_filter key (Name w)"]
    by (metis prod.collapse)
  have c: "sint (word_of_nat (length cs) :: 32 word) = int (length cs)"
    using assms(3) by (rule sint_length)
  obtain err rt2 where up: "?up = (err, rt2)" by (cases ?up)
  then have "err = None \<or> err = Some SliceBoundsPanic"
    using scale_up_err [of "called rt (ListContainersCall (workload_filter key (Name w)))"
            "Name w" "Template w" "map int [length cs..<nat (sint d)]"] by simp
  then have "reconcileWorkload key rt w = (err, rt2)"
    using assms(2-4) c scale_up_replicas_upt [of cs d] up
    by (auto simp: reconcileWorkload_def l Let_def)
  then show ?thesis using up by simp
qed

subsection \<open>Stopping and removing on a runtime without faults\<close>





subsection \<open>The pods a scale-up names\<close>








section \<open>Ownership labels (C1)\<close>

lemma created_labels:
  "fst (CreateContainer rt spec pod) = Inr info \<Longrightarrow> ci_Labels info = containerd_labels spec pod"
  by (auto simp: CreateContainer_def Let_def split: if_splits)

text \<open>
  No container made by \<open>CreateContainer\<close> passes the filter of the workload reconciler,
  for a Deployment or a StatefulSet of any non-empty name: the key of the filter is not
  among the labels the driver sets.
\<close>

lemma created_never_listed:
  assumes "workloadName \<noteq> []" "fst (CreateContainer rt spec pod) = Inr info"
  shows "\<not> matchesFilters info (workload_filter ''synthesis.deployment'' workloadName)
     \<and> \<not> matchesFilters info (workload_filter ''synthesis.statefulset'' workloadName)"
  using assms(1) created_labels [OF assms(2)]
  by (simp add: matchesFilters_def workload_filter_def containerd_labels_def go_index_def)

lemma docker_labels_keys:
  "map fst (docker_labels [(''managed-by'', ''synthesis'')] spec pod)
     = [''synthesis.pod'', ''synthesis.container'', ''managed-by'']"
  by (simp add: docker_labels_def)

lemma first_listing:
  "fst (ListContainers healthy_runtime (workload_filter ''synthesis.deployment'' (Name frontend))) = Inr []"
  by (simp add: ListContainers_def healthy_runtime_def)

lemma upt_0_1: "map int [length ([] :: ContainerInfo list)..<nat (sint (1 :: 32 word))] = [0]"
  by simp

lemma frontend_fields:
  "Name frontend = ''frontend''" "Template frontend = \<lparr>Containers = [nginx]\<rparr>"
  "(1 :: 32 word) = (case Replicas frontend of None \<Rightarrow> 1 | Some r \<Rightarrow> r)"
  by (simp_all add: frontend_def)

lemma first_tick:
  "reconcileDeployment healthy_runtime frontend
     = (None, healthy_runtime\<lparr>rt_containers := [frontend_container],
                 rt_calls := [ListContainersCall (workload_filter ''synthesis.deployment'' ''frontend''),
                              PullImageCall ''nginx:1.25'', CreateContainerCall nginx ''frontend-0'',
                              StartContainerCall ''frontend-0-nginx'']\<rparr>)"
proof -
  have b: "length ([] :: ContainerInfo list) < 2 ^ 31"
    "int (length ([] :: ContainerInfo list)) < sint (1 :: 32 word)" by simp_all
  have "reconcileDeployment healthy_runtime frontend
          = scale_up (called healthy_runtime (ListContainersCall (workload_filter ''synthesis.deployment'' ''frontend'')))
              ''frontend'' \<lparr>Containers = [nginx]\<rparr> [0]"
    using reconcileWorkload_scale_up [OF first_listing frontend_fields(3) b]
    by (simp only: reconcileDeployment_def frontend_fields(1,2) upt_0_1)
  also have "\<dots> = (None, healthy_runtime\<lparr>rt_containers := [frontend_container],
                 rt_calls := [ListContainersCall (workload_filter ''synthesis.deployment'' ''frontend''),
                              PullImageCall ''nginx:1.25'', CreateContainerCall nginx ''frontend-0'',
                              StartContainerCall ''frontend-0-nginx'']\<rparr>)"
    by (simp add: createPodFromTemplate_def podName_digits PullImage_def CreateContainer_def
          StartContainer_def called_def healthy_runtime_def nginx_def frontend_container_def
          containerd_labels_def set_status_def Let_def)
  finally show ?thesis .
qed

lemma after_first_tick_eq:
  "after_first_tick = healthy_runtime\<lparr>rt_containers := [frontend_container],
                 rt_calls := [ListContainersCall (workload_filter ''synthesis.deployment'' ''frontend''),
                              PullImageCall ''nginx:1.25'', CreateContainerCall nginx ''frontend-0'',
                              StartContainerCall ''frontend-0-nginx'']\<rparr>"
  by (simp only: after_first_tick_def first_tick snd_conv)

lemma second_listing:
  "fst (ListContainers after_first_tick (workload_filter ''synthesis.deployment'' (Name frontend))) = Inr []"
  by (simp add: after_first_tick_eq ListContainers_def healthy_runtime_def matchesFilters_def
        workload_filter_def frontend_container_def go_index_def frontend_def)

lemma second_tick:
  "reconcileDeployment after_first_tick frontend
     = (None, after_first_tick\<lparr>rt_calls := rt_calls after_first_tick @
                 [ListContainersCall (workload_filter ''synthesis.deployment'' ''frontend''),
                  PullImageCall ''nginx:1.25'', CreateContainerCall nginx ''frontend-0'']\<rparr>)"
proof -
  have b: "length ([] :: ContainerInfo list) < 2 ^ 31"
    "int (length ([] :: ContainerInfo list)) < sint (1 :: 32 word)" by simp_all
  have "reconcileDeployment after_first_tick frontend
          = scale_up (called after_first_tick (ListContainersCall (workload_filter ''synthesis.deployment'' ''frontend'')))
              ''frontend'' \<lparr>Containers = [nginx]\<rparr> [0]"
    using reconcileWorkload_scale_up [OF second_listing frontend_fields(3) b]
    by (simp only: reconcileDeployment_def frontend_fields(1,2) upt_0_1)
  also have "\<dots> = (None, after_first_tick\<lparr>rt_calls := rt_calls after_first_tick @
                 [ListContainersCall (workload_filter ''synthesis.deployment'' ''frontend''),
                  PullImageCall ''nginx:1.25'', CreateContainerCall nginx ''frontend-0'']\<rparr>)"
    by (simp add: after_first_tick_eq createPodFromTemplate_def podName_digits PullImage_def
          CreateContainer_def called_def healthy_runtime_def nginx_def frontend_container_def Let_def)
  finally show ?thesis .
qed

text \<open>
  C1 fails on the code. The Deployment \<open>frontend\<close> wants one replica and the runtime is
  empty. The first tick creates and starts the container \<open>frontend-0-nginx\<close>, labelled
  with \<open>synthesis.pod\<close>, \<open>synthesis.container\<close> and \<open>managed-by\<close> and with no label that
  names the Deployment. The listing of the next tick, which filters on
  \<open>synthesis.deployment=frontend\<close>, is empty although the container is there: the
  container is not counted, and the second tick asks for \<open>frontend-0-nginx\<close> again, which
  the runtime refuses as a duplicate.
\<close>

theorem created_container_is_not_counted:
  "reconcileDeployment healthy_runtime frontend = (None, after_first_tick)
   \<and> rt_containers after_first_tick = [frontend_container]
   \<and> ci_Labels frontend_container = containerd_labels nginx ''frontend-0''
   \<and> map fst (ci_Labels frontend_container) = [''synthesis.pod'', ''synthesis.container'', ''managed-by'']
   \<and> cf_Labels (workload_filter ''synthesis.deployment'' (Name frontend))
       = [(''synthesis.deployment'', ''frontend'')]
   \<and> fst (ListContainers after_first_tick (workload_filter ''synthesis.deployment'' (Name frontend))) = Inr []
   \<and> rt_calls (snd (reconcileDeployment after_first_tick frontend))
       = [ListContainersCall (workload_filter ''synthesis.deployment'' ''frontend''),
          PullImageCall ''nginx:1.25'', CreateContainerCall nginx ''frontend-0'',
          StartContainerCall ''frontend-0-nginx'',
          ListContainersCall (workload_filter ''synthesis.deployment'' ''frontend''),
          PullImageCall ''nginx:1.25'', CreateContainerCall nginx ''frontend-0'']
   \<and> rt_containers (snd (reconcileDeployment after_first_tick frontend)) = [frontend_container]"
proof -
  have a: "reconcileDeployment healthy_runtime frontend = (None, after_first_tick)"
    by (simp only: first_tick after_first_tick_eq)
  have b: "rt_containers after_first_tick = [frontend_container]"
    by (simp add: after_first_tick_eq)
  have c: "ci_Labels frontend_container = containerd_labels nginx ''frontend-0''"
    "map fst (ci_Labels frontend_container) = [''synthesis.pod'', ''synthesis.container'', ''managed-by'']"
    by (simp_all add: frontend_container_def containerd_labels_def nginx_def)
  have d: "cf_Labels (workload_filter ''synthesis.deployment'' (Name frontend))
       = [(''synthesis.deployment'', ''frontend'')]"
    by (simp add: workload_filter_def frontend_def)
  have e: "rt_calls (snd (reconcileDeployment after_first_tick frontend))
       = [ListContainersCall (workload_filter ''synthesis.deployment'' ''frontend''),
          PullImageCall ''nginx:1.25'', CreateContainerCall nginx ''frontend-0'',
          StartContainerCall ''frontend-0-nginx'',
          ListContainersCall (workload_filter ''synthesis.deployment'' ''frontend''),
          PullImageCall ''nginx:1.25'', CreateContainerCall nginx ''frontend-0'']"
    by (simp only: second_tick snd_conv) (simp add: after_first_tick_eq)
  have f: "rt_containers (snd (reconcileDeployment after_first_tick frontend)) = [frontend_container]"
    by (simp only: second_tick snd_conv) (simp add: after_first_tick_eq)
  show ?thesis using a b c d second_listing e f by (simp only: simp_thms)
qed

text \<open>
  The scenario of the specification with the Deployment \<open>web\<close> does not get this far:
  the id \<open>web-0-nginx\<close> has eleven characters, and the log line after the start of the
  container slices twelve.
\<close>

lemma short_container_id_panics:
  "fst (reconcileDeployment healthy_runtime web) = Some SliceBoundsPanic"
proof -
  have l: "fst (ListContainers healthy_runtime (workload_filter ''synthesis.deployment'' (Name web))) = Inr []"
    by (simp add: ListContainers_def healthy_runtime_def)
  have d: "(3 :: 32 word) = (case Replicas web of None \<Rightarrow> 1 | Some r \<Rightarrow> r)" by (simp add: web_def)
  have b: "length ([] :: ContainerInfo list) < 2 ^ 31"
    "int (length ([] :: ContainerInfo list)) < sint (3 :: 32 word)" by simp_all
  have n: "Name web = ''web''" "Template web = \<lparr>Containers = [nginx]\<rparr>" by (simp_all add: web_def)
  have "[0..<3] = [0, 1, 2 :: nat]" by code_simp
  then have u: "map int [length ([] :: ContainerInfo list)..<nat (sint (3 :: 32 word))] = [0, 1, 2]"
    by simp
  have "reconcileDeployment healthy_runtime web
          = scale_up (called healthy_runtime (ListContainersCall (workload_filter ''synthesis.deployment'' ''web'')))
              ''web'' \<lparr>Containers = [nginx]\<rparr> [0, 1, 2]"
    using reconcileWorkload_scale_up [OF l d b]
    by (simp only: reconcileDeployment_def n u)
  also have "fst \<dots> = Some SliceBoundsPanic"
    by (simp add: createPodFromTemplate_def podName_digits PullImage_def CreateContainer_def
          StartContainer_def called_def healthy_runtime_def nginx_def Let_def)
  finally show ?thesis .
qed

section \<open>Naming the pods of a scale-up (C2)\<close>









section \<open>The status of a Service after a tick (C3)\<close>

lemma reconcileService_frame:
  "rt_fails (runtime (snd (reconcileService s svc))) = rt_fails (runtime s)
   \<and> rt_containers (runtime (snd (reconcileService s svc))) = rt_containers (runtime s)"
  by (simp add: reconcileService_def findTargetContainers_def ListContainers_def updateServiceStatus_def
        called_def split: option.splits)

lemma reconcileService_map_of:
  "map_of (services (snd (reconcileService s svc))) name =
     (if \<not> rt_fails (runtime s) (ListContainersCall managed_filter)
         \<and> svc_Type svc = ServiceTypeNodePort \<and> name = Name svc
      then map_option (\<lambda>st. st\<lparr>Ingress := [\<lparr>IP = ''127.0.0.1''\<rparr>]\<rparr>) (map_of (services s) name)
      else map_of (services s) name)"
  by (simp add: reconcileService_def findTargetContainers_def ListContainers_def updateServiceStatus_def
        called_def map_of_update_same map_of_update_other split: option.splits)

lemma reconcile_services_frame:
  "rt_containers (runtime (reconcile_services s svcs)) = rt_containers (runtime s)"
  by (induction svcs arbitrary: s) (simp_all add: reconcileService_frame)

lemma reconcile_services_map_of:
  "map_of (services (reconcile_services s svcs)) name =
     (if \<not> rt_fails (runtime s) (ListContainersCall managed_filter)
         \<and> (\<exists>svc \<in> set svcs. Name svc = name \<and> svc_Type svc = ServiceTypeNodePort)
      then map_option (\<lambda>st. st\<lparr>Ingress := [\<lparr>IP = ''127.0.0.1''\<rparr>]\<rparr>) (map_of (services s) name)
      else map_of (services s) name)"
proof (induction svcs arbitrary: s)
  case Nil
  then show ?case by simp
next
  case (Cons svc svcs)
  let ?s1 = "snd (reconcileService s svc)"
  have f: "rt_fails (runtime ?s1) = rt_fails (runtime s)" by (simp add: reconcileService_frame)
  have idem: "map_option (\<lambda>st. st\<lparr>Ingress := [\<lparr>IP = ''127.0.0.1''\<rparr>]\<rparr>)
                (map_option (\<lambda>st. st\<lparr>Ingress := [\<lparr>IP = ''127.0.0.1''\<rparr>]\<rparr>) (map_of (services s) name))
              = map_option (\<lambda>st. st\<lparr>Ingress := [\<lparr>IP = ''127.0.0.1''\<rparr>]\<rparr>) (map_of (services s) name)"
    by (cases "map_of (services s) name") simp_all
  show ?case
    using Cons.IH [of ?s1] reconcileService_map_of [of s svc name] f idem
    by (cases "svc_Type svc = ServiceTypeNodePort \<and> name = Name svc") auto
qed

lemma stored_node_port:
  assumes "distinct (map fst (services s))" "\<forall>(k, svc) \<in> set (services s). Name svc = k"
  shows "(\<exists>svc \<in> set (map snd (services s)). Name svc = name \<and> svc_Type svc = ServiceTypeNodePort)
     \<longleftrightarrow> (\<exists>st. map_of (services s) name = Some st \<and> svc_Type st = ServiceTypeNodePort)"
proof
  assume "\<exists>svc \<in> set (map snd (services s)). Name svc = name \<and> svc_Type svc = ServiceTypeNodePort"
  then obtain k svc where m: "(k, svc) \<in> set (services s)" "Name svc = name"
      "svc_Type svc = ServiceTypeNodePort" by auto
  then have "k = name" using assms(2) by auto
  then have "map_of (services s) name = Some svc" using m(1) assms(1) by simp
  then show "\<exists>st. map_of (services s) name = Some st \<and> svc_Type st = ServiceTypeNodePort"
    using m(3) by blast
next
  assume "\<exists>st. map_of (services s) name = Some st \<and> svc_Type st = ServiceTypeNodePort"
  then obtain st where st: "map_of (services s) name = Some st" "svc_Type st = ServiceTypeNodePort"
    by blast
  then have m: "(name, st) \<in> set (services s)" by (simp add: map_of_SomeD)
  then have "Name st = name" using assms(2) by auto
  then show "\<exists>svc \<in> set (map snd (services s)). Name svc = name \<and> svc_Type svc = ServiceTypeNodePort"
    using m st(2) by force
qed

lemma service_server_targets:
  "fst (findTargetContainers (runtime service_server) (Selector web_svc))
     = Inr [web_container ''0'', web_container ''1'', web_container ''2'']"
  by (simp add: findTargetContainers_def ListContainers_def service_server_def empty_server_def
        three_web_runtime_def healthy_runtime_def managed_filter_def matchesFilters_def
        matchesSelector_def go_index_def web_container_def web_svc_def)

lemma service_server_wf:
  "distinct (map fst (services service_server))"
  "\<forall>(k, svc) \<in> set (services service_server). Name svc = k"
  by (simp_all add: service_server_def empty_server_def web_svc_def web_np_def)

text \<open>
  C3, as amended. In a store whose services are filed under their names, one tick of the
  service reconciler leaves the stored status of a Service that is not of type NodePort
  as it was, and sets the status of a NodePort Service to the single ingress entry
  \<open>127.0.0.1\<close>, provided the listing of the managed containers succeeds; nothing else of a
  Service changes, no Service is added or dropped, and the runtime holds the same
  containers. The containers that match the selector are computed and do not enter the
  status.
\<close>

theorem service_tick_status:
  assumes "distinct (map fst (services s))" "\<forall>(k, svc) \<in> set (services s). Name svc = k"
  shows "map_of (services (reconcileServices s)) name
           = map_option (\<lambda>st. if svc_Type st = ServiceTypeNodePort
                                  \<and> \<not> rt_fails (runtime s) (ListContainersCall managed_filter)
                               then st\<lparr>Ingress := [\<lparr>IP = ''127.0.0.1''\<rparr>]\<rparr> else st)
               (map_of (services s) name)
     \<and> rt_containers (runtime (reconcileServices s)) = rt_containers (runtime s)"
proof -
  have "map_of (services (reconcileServices s)) name
           = map_option (\<lambda>st. if svc_Type st = ServiceTypeNodePort
                                  \<and> \<not> rt_fails (runtime s) (ListContainersCall managed_filter)
                               then st\<lparr>Ingress := [\<lparr>IP = ''127.0.0.1''\<rparr>]\<rparr> else st)
               (map_of (services s) name)"
    using reconcile_services_map_of [of s "map snd (services s)" name] stored_node_port [OF assms, of name]
    by (cases "map_of (services s) name") (auto simp: reconcileServices_def)
  then show ?thesis by (simp add: reconcileServices_def reconcile_services_frame)
qed

theorem service_tick_status_witness:
  "distinct (map fst (services service_server))
   \<and> map fst (services service_server) = map (Name \<circ> snd) (services service_server)
   \<and> map_of (services (reconcileServices service_server)) ''web-np''
       = Some (web_np\<lparr>Ingress := [\<lparr>IP = ''127.0.0.1''\<rparr>]\<rparr>)
   \<and> map_of (services (reconcileServices service_server)) ''web-svc'' = Some web_svc
   \<and> rt_containers (runtime (reconcileServices service_server)) = rt_containers three_web_runtime"
proof -
  have a: "map fst (services service_server) = map (Name \<circ> snd) (services service_server)"
    by (simp add: service_server_def empty_server_def web_svc_def web_np_def)
  have m: "map_of (services service_server) ''web-np'' = Some web_np"
      "map_of (services service_server) ''web-svc'' = Some web_svc"
      "svc_Type web_np = ServiceTypeNodePort" "svc_Type web_svc = ServiceTypeClusterIP"
      "\<not> rt_fails (runtime service_server) (ListContainersCall managed_filter)"
      "rt_containers (runtime service_server) = rt_containers three_web_runtime"
    by (simp_all add: service_server_def empty_server_def web_svc_def web_np_def
          three_web_runtime_def healthy_runtime_def)
  show ?thesis
    using a m service_server_wf(1)
      service_tick_status [OF service_server_wf, of "''web-np''"]
      service_tick_status [OF service_server_wf, of "''web-svc''"]
    by simp
qed

text \<open>
  C3 as stated fails on the scenario of the specification: three managed containers
  carry \<open>app=web\<close>, the ClusterIP Service \<open>web-svc\<close> selects \<open>app=web\<close>, the reconciler
  finds the three containers, and the stored status after the tick is the empty status
  the Service had before.
\<close>

theorem cluster_ip_status_has_no_endpoints:
  "fst (findTargetContainers (runtime service_server) (Selector web_svc))
     = Inr [web_container ''0'', web_container ''1'', web_container ''2'']
   \<and> map_of (services service_server) ''web-svc'' = Some web_svc
   \<and> svc_Type web_svc = ServiceTypeClusterIP
   \<and> map_of (services (reconcileServices service_server)) ''web-svc'' = Some web_svc
   \<and> Ingress web_svc = []"
proof -
  have m: "map_of (services service_server) ''web-svc'' = Some web_svc"
      "svc_Type web_svc = ServiceTypeClusterIP" "Ingress web_svc = []"
    by (simp_all add: service_server_def empty_server_def web_svc_def)
  have no: "(\<exists>svc \<in> set (map snd (services service_server)).
              Name svc = ''web-svc'' \<and> svc_Type svc = ServiceTypeNodePort) = False"
    by (simp add: service_server_def empty_server_def web_svc_def web_np_def)
  have "map_of (services (reconcileServices service_server)) ''web-svc''
          = map_of (services service_server) ''web-svc''"
    unfolding reconcileServices_def
    by (simp only: reconcile_services_map_of no simp_thms if_False)
  then have "map_of (services (reconcileServices service_server)) ''web-svc'' = Some web_svc"
    by (simp only: m(1))
  then show ?thesis using service_server_targets m by (simp only: simp_thms)
qed

section \<open>Loading the snapshot at startup (C4)\<close>

text \<open>
  C4, as amended. Provided the data directories can be created, startup succeeds exactly
  when the directories of pods, deployments, statefulsets and services can all be read;
  if one of them cannot, \<open>NewServer\<close> returns the error and \<open>runServer\<close> ends in
  \<open>log.Fatalf\<close>. Inside a directory that can be read no file makes the load fail: with
  distinct file names, what is loaded of each kind is the manifests of the regular
  \<open>.json\<close> files that can be read and parsed, filed under their names, and the other
  files are skipped.
\<close>

theorem startup_load:
  assumes "\<not> fs_mkdir_fails disk"
  shows "((\<exists>srv. NewServer disk rt = Inr srv) \<longleftrightarrow>
            fs_pods disk \<noteq> None \<and> fs_deployments disk \<noteq> None
            \<and> fs_statefulsets disk \<noteq> None \<and> fs_services disk \<noteq> None)
         \<and> (fs_pods disk = None \<or> fs_deployments disk = None
              \<or> fs_statefulsets disk = None \<or> fs_services disk = None
              \<longrightarrow> NewServer disk rt = Inl StorageReadDirFailed
                  \<and> (\<not> rt_fails rt HealthCheckCall \<longrightarrow> runServer disk rt = Fatal StorageReadDirFailed))
         \<and> (\<forall>files. distinct (map de_Name files) \<longrightarrow>
               ListPods (disk\<lparr>fs_pods := Some files\<rparr>) = Inr (manifests files))
         \<and> (\<forall>pf df sf vf. fs_pods disk = Some pf \<and> distinct (map de_Name pf)
               \<and> fs_deployments disk = Some df \<and> distinct (map de_Name df)
               \<and> fs_statefulsets disk = Some sf \<and> distinct (map de_Name sf)
               \<and> fs_services disk = Some vf \<and> distinct (map de_Name vf)
               \<longrightarrow> NewServer disk rt
                     = Inr \<lparr>runtime = rt, storage = disk, pods = install [] (manifests pf),
                            deployments = install [] (manifests df),
                            statefulsets = install [] (manifests sf),
                            services = install [] (manifests vf), nodes = []\<rparr>)"
proof -
  let ?s0 = "\<lparr>runtime = rt, storage = disk, pods = [], deployments = [],
               statefulsets = [], services = [], nodes = []\<rparr>"
  have new: "NewServer disk rt = loadState ?s0"
    using assms by (simp add: NewServer_def NewFileStorage_def)
  have iff: "(\<exists>srv. NewServer disk rt = Inr srv) \<longleftrightarrow>
            fs_pods disk \<noteq> None \<and> fs_deployments disk \<noteq> None
            \<and> fs_statefulsets disk \<noteq> None \<and> fs_services disk \<noteq> None"
    unfolding new using loadState_ok_iff [of ?s0] by simp
  have fatal: "fs_pods disk = None \<or> fs_deployments disk = None
              \<or> fs_statefulsets disk = None \<or> fs_services disk = None
              \<longrightarrow> NewServer disk rt = Inl StorageReadDirFailed
                  \<and> (\<not> rt_fails rt HealthCheckCall \<longrightarrow> runServer disk rt = Fatal StorageReadDirFailed)"
  proof (rule impI)
    assume that: "fs_pods disk = None \<or> fs_deployments disk = None
              \<or> fs_statefulsets disk = None \<or> fs_services disk = None"
    from that iff have "\<not> (\<exists>srv. NewServer disk rt = Inr srv)" by blast
    then obtain e where e: "NewServer disk rt = Inl e" by (cases "NewServer disk rt") auto
    then have "e = StorageReadDirFailed" using loadState_error [of ?s0 e] new by simp
    with e have n: "NewServer disk rt = Inl StorageReadDirFailed" by simp
    have "loadState \<lparr>runtime = called rt HealthCheckCall, storage = disk, pods = [], deployments = [],
               statefulsets = [], services = [], nodes = []\<rparr> = Inl StorageReadDirFailed"
      using that
      by (cases "fs_pods disk"; cases "fs_deployments disk";
          cases "fs_statefulsets disk"; cases "fs_services disk")
         (simp_all add: loadState_def ListPods_def ListDeployments_def ListStatefulSets_def
            ListServices_def listObjects_Some listObjects_None Let_def)
    then have "\<not> rt_fails rt HealthCheckCall \<longrightarrow> runServer disk rt = Fatal StorageReadDirFailed"
      using assms by (simp add: runServer_def HealthCheck_def NewServer_def NewFileStorage_def)
    with n show "NewServer disk rt = Inl StorageReadDirFailed
                  \<and> (\<not> rt_fails rt HealthCheckCall \<longrightarrow> runServer disk rt = Fatal StorageReadDirFailed)"
      by simp
  qed
  have skip: "\<forall>files. distinct (map de_Name files) \<longrightarrow>
               ListPods (disk\<lparr>fs_pods := Some files\<rparr>) = Inr (manifests files)"
    by (simp add: ListPods_def listObjects_readable)
  have loaded: "\<forall>pf df sf vf. fs_pods disk = Some pf \<and> distinct (map de_Name pf)
               \<and> fs_deployments disk = Some df \<and> distinct (map de_Name df)
               \<and> fs_statefulsets disk = Some sf \<and> distinct (map de_Name sf)
               \<and> fs_services disk = Some vf \<and> distinct (map de_Name vf)
               \<longrightarrow> NewServer disk rt
                     = Inr \<lparr>runtime = rt, storage = disk, pods = install [] (manifests pf),
                            deployments = install [] (manifests df),
                            statefulsets = install [] (manifests sf),
                            services = install [] (manifests vf), nodes = []\<rparr>"
  proof (intro allI impI)
    fix pf df sf vf
    assume a: "fs_pods disk = Some pf \<and> distinct (map de_Name pf)
               \<and> fs_deployments disk = Some df \<and> distinct (map de_Name df)
               \<and> fs_statefulsets disk = Some sf \<and> distinct (map de_Name sf)
               \<and> fs_services disk = Some vf \<and> distinct (map de_Name vf)"
    have "loadState ?s0 = Inr (?s0\<lparr>pods := install (pods ?s0) (manifests pf),
                              deployments := install (deployments ?s0) (manifests df),
                              statefulsets := install (statefulsets ?s0) (manifests sf),
                              services := install (services ?s0) (manifests vf)\<rparr>)"
      by (rule loadState_full) (simp_all add: a)
    then show "NewServer disk rt
                     = Inr \<lparr>runtime = rt, storage = disk, pods = install [] (manifests pf),
                            deployments = install [] (manifests df),
                            statefulsets = install [] (manifests sf),
                            services = install [] (manifests vf), nodes = []\<rparr>"
      by (simp add: new)
  qed
  show ?thesis by (intro conjI) (fact iff, fact fatal, fact skip, fact loaded)
qed

theorem startup_load_witness:
  "\<not> fs_mkdir_fails mixed_pods_disk
   \<and> NewServer mixed_pods_disk healthy_runtime
       = Inr (empty_server\<lparr>storage := mixed_pods_disk, pods := [(''web'', web_pod)]\<rparr>)
   \<and> ListPods mixed_pods_disk = Inr [web_pod]
   \<and> ((\<exists>srv. NewServer mixed_pods_disk healthy_runtime = Inr srv) \<longleftrightarrow>
            fs_pods mixed_pods_disk \<noteq> None \<and> fs_deployments mixed_pods_disk \<noteq> None
            \<and> fs_statefulsets mixed_pods_disk \<noteq> None \<and> fs_services mixed_pods_disk \<noteq> None)"
proof -
  have m: "\<not> fs_mkdir_fails mixed_pods_disk" by (simp add: mixed_pods_disk_def empty_disk_def)
  have l: "ListPods mixed_pods_disk = Inr [web_pod]"
    by (simp add: mixed_pods_disk_def empty_disk_def ListPods_def listObjects_def listFiles_def
          Ext_def getObject_def)
  have n: "NewServer mixed_pods_disk healthy_runtime
       = Inr (empty_server\<lparr>storage := mixed_pods_disk, pods := [(''web'', web_pod)]\<rparr>)"
    using l
    by (simp add: NewServer_def NewFileStorage_def loadState_def mixed_pods_disk_def empty_disk_def
          ListDeployments_def ListStatefulSets_def ListServices_def listObjects_def listFiles_def
          empty_server_def install_def web_pod_def)
  have i: "(\<exists>srv. NewServer mixed_pods_disk healthy_runtime = Inr srv) \<longleftrightarrow>
            fs_pods mixed_pods_disk \<noteq> None \<and> fs_deployments mixed_pods_disk \<noteq> None
            \<and> fs_statefulsets mixed_pods_disk \<noteq> None \<and> fs_services mixed_pods_disk \<noteq> None"
    using startup_load [OF m, of healthy_runtime] by (rule conjunct1)
  show ?thesis by (intro conjI) (fact m, fact n, fact l, fact i)
qed

text \<open>
  C4 as stated fails on a disk whose pods directory cannot be read: the failure is not
  taken for an empty set, the start of the server ends in \<open>log.Fatalf\<close>.
\<close>

theorem unreadable_directory_aborts_startup:
  "\<not> fs_mkdir_fails unreadable_pods_disk
   \<and> ListPods unreadable_pods_disk = Inl StorageReadDirFailed
   \<and> NewServer unreadable_pods_disk healthy_runtime = Inl StorageReadDirFailed
   \<and> runServer unreadable_pods_disk healthy_runtime = Fatal StorageReadDirFailed"
  by (simp add: runServer_def unreadable_pods_disk_def empty_disk_def healthy_runtime_def HealthCheck_def
      NewServer_def NewFileStorage_def loadState_def ListPods_def listObjects_def listFiles_def)

section \<open>Accepted resources and the snapshot (C5)\<close>












text \<open>
  The control loops keep what the handlers stored: a tick of the workload reconciler
  and a tick of the node reporter change no Pod, Deployment, StatefulSet or Service, and
  a tick of the service reconciler changes no Pod, Deployment or StatefulSet and keeps
  the names of the services.
\<close>

lemma reconcileWorkloads_keeps:
  "pods (snd (reconcileWorkloads s)) = pods s \<and> deployments (snd (reconcileWorkloads s)) = deployments s
   \<and> statefulsets (snd (reconcileWorkloads s)) = statefulsets s
   \<and> services (snd (reconcileWorkloads s)) = services s"
  by (simp add: reconcileWorkloads_def Let_def split: prod.splits)

lemma updateNodeStatus_keeps:
  "pods (updateNodeStatus s now) = pods s \<and> deployments (updateNodeStatus s now) = deployments s
   \<and> statefulsets (updateNodeStatus s now) = statefulsets s
   \<and> services (updateNodeStatus s now) = services s"
  by (simp add: updateNodeStatus_def Let_def split: prod.splits sum.splits)

lemma reconcileService_keeps:
  "pods (snd (reconcileService s svc)) = pods s \<and> deployments (snd (reconcileService s svc)) = deployments s
   \<and> statefulsets (snd (reconcileService s svc)) = statefulsets s"
  by (simp add: reconcileService_def updateServiceStatus_def split: prod.splits sum.splits option.splits)

lemma reconcile_services_keeps:
  "pods (reconcile_services s svcs) = pods s \<and> deployments (reconcile_services s svcs) = deployments s
   \<and> statefulsets (reconcile_services s svcs) = statefulsets s"
  by (induction svcs arbitrary: s) (simp_all add: reconcileService_keeps)

lemma reconcileServices_keeps:
  "pods (reconcileServices s) = pods s \<and> deployments (reconcileServices s) = deployments s
   \<and> statefulsets (reconcileServices s) = statefulsets s"
  by (simp add: reconcileServices_def reconcile_services_keeps)



section \<open>Scaling a StatefulSet down (C6)\<close>






section \<open>The node status reporter (C7)\<close>

text \<open>
  C7, as amended. On a tick whose system-info call succeeds, the node stored under
  \<open>local-node\<close> is written or overwritten: it carries the reported CPU count and memory
  size as capacity and as allocatable, and one condition, Ready with status True and the
  time of the tick; no other entry of the node map changes, \<open>local-node\<close> is the only
  name the tick can add, and a map with one entry per name keeps one entry per name. On a
  tick whose system-info call fails, the node map is left as it was.
\<close>

theorem node_tick:
  "(fst (GetSystemInfo (runtime s)) = Inr info \<longrightarrow>
      (\<exists>node. map_of (nodes (updateNodeStatus s now)) ''local-node'' = Some node
          \<and> Name node = ''local-node''
          \<and> Capacity node = \<lparr>ResourceCPU = si_NCPU info, ResourceMemory = si_MemTotal info\<rparr>
          \<and> Allocatable node = \<lparr>ResourceCPU = si_NCPU info, ResourceMemory = si_MemTotal info\<rparr>
          \<and> map nc_Type (Conditions node) = [NodeReady]
          \<and> map nc_Status (Conditions node) = [ConditionTrue]
          \<and> map nc_LastHeartbeatTime (Conditions node) = [now])
      \<and> (\<forall>k. k \<noteq> ''local-node'' \<longrightarrow> map_of (nodes (updateNodeStatus s now)) k = map_of (nodes s) k)
      \<and> fst ` set (nodes (updateNodeStatus s now)) = {''local-node''} \<union> fst ` set (nodes s)
      \<and> (distinct (map fst (nodes s)) \<longrightarrow> distinct (map fst (nodes (updateNodeStatus s now)))))
   \<and> (fst (GetSystemInfo (runtime s)) = Inl e \<longrightarrow> nodes (updateNodeStatus s now) = nodes s)"
  by (cases "GetSystemInfo (runtime s)")
     (auto simp: updateNodeStatus_def Let_def map_of_update_same map_of_update_other dom_update
        distinct_update split: sum.splits)

theorem node_tick_witness:
  "fst (GetSystemInfo (runtime empty_server))
     = Inr \<lparr>si_ContainerRuntime = ''containerd'', si_RuntimeVersion = ''v1.7'', si_KernelVersion = [],
            si_OperatingSystem = [], si_Architecture = ''amd64'', si_NCPU = 4, si_MemTotal = 8589934592\<rparr>
   \<and> (\<exists>node. map_of (nodes (updateNodeStatus empty_server 50)) ''local-node'' = Some node
          \<and> Name node = ''local-node''
          \<and> Capacity node = \<lparr>ResourceCPU = 4, ResourceMemory = 8589934592\<rparr>
          \<and> map nc_Status (Conditions node) = [ConditionTrue])
   \<and> fst (GetSystemInfo (runtime outage_server)) = Inl (RuntimeFailed GetSystemInfoCall)
   \<and> nodes (updateNodeStatus outage_server 80) = nodes outage_server"
proof -
  let ?info = "\<lparr>si_ContainerRuntime = ''containerd'', si_RuntimeVersion = ''v1.7'', si_KernelVersion = [],
            si_OperatingSystem = [], si_Architecture = ''amd64'', si_NCPU = 4, si_MemTotal = 8589934592\<rparr>"
  have ok: "fst (GetSystemInfo (runtime empty_server)) = Inr ?info"
    by (simp add: empty_server_def healthy_runtime_def GetSystemInfo_def)
  have bad: "fst (GetSystemInfo (runtime outage_server)) = Inl (RuntimeFailed GetSystemInfoCall)"
    by (simp add: outage_server_def no_info_runtime_def GetSystemInfo_def)
  show ?thesis
    using ok bad node_tick [of empty_server ?info 50] node_tick [of outage_server _ 80 "RuntimeFailed GetSystemInfoCall"]
    by auto
qed

text \<open>
  C7 as stated fails on a tick whose system-info call fails. Starting from a server with
  no node, nothing is written, and a read of \<open>local-node\<close> is answered with 404. Starting
  from the state left by an earlier successful tick at time 50, the tick at time 80 leaves
  that node in place: a read returns it, Ready with status True and the heartbeat of 50.
\<close>

theorem failed_tick_writes_nothing:
  "fst (GetSystemInfo no_info_runtime) = Inl (RuntimeFailed GetSystemInfoCall)
   \<and> getNodeHandler (updateNodeStatus (empty_server\<lparr>runtime := no_info_runtime\<rparr>) 80) ''local-node''
       = \<lparr>resp_status = 404, resp_body = ErrorJSON ''Node not found''\<rparr>
   \<and> runtime outage_server = no_info_runtime
   \<and> getNodeHandler (updateNodeStatus outage_server 80) ''local-node''
       = \<lparr>resp_status = 200, resp_body = NodeJSON local_node\<rparr>
   \<and> map nc_Status (Conditions local_node) = [ConditionTrue]
   \<and> map nc_LastHeartbeatTime (Conditions local_node) = [50]"
  by (simp add: getNodeHandler_def outage_server_def no_info_runtime_def GetSystemInfo_def
        updateNodeStatus_def local_node_def ready_server_def empty_server_def healthy_runtime_def
        StatusOK_def StatusNotFound_def)

section \<open>Memory limits (C8)\<close>

text \<open>
  C8, as amended. When \<open>parseMemoryLimit\<close> accepts a string, the string is an optional
  sign and one or more decimal digits, followed by \<open>Ki\<close>, \<open>Mi\<close>, \<open>Gi\<close> or nothing, and
  the result is the 64-bit product of the signed number and 1024, 1024 squared, 1024
  cubed or 1. The result read as a signed integer is the exact product whenever the exact
  product fits 64 bits.
\<close>

theorem parseMemoryLimit_value:
  assumes "parseMemoryLimit s = Inr v"
  shows "\<exists>sign digits n m.
           (sign = [] \<or> sign = ''+'' \<or> sign = ''-'') \<and> digits \<noteq> [] \<and> list_all is_digit digits
           \<and> n = (if sign = ''-'' then - int (decimal digits) else int (decimal digits))
           \<and> ParseInt (sign @ digits) = Inr n
           \<and> ((s = sign @ digits @ ''Ki'' \<and> m = 1024) \<or> (s = sign @ digits @ ''Mi'' \<and> m = 1024 ^ 2)
               \<or> (s = sign @ digits @ ''Gi'' \<and> m = 1024 ^ 3) \<or> (s = sign @ digits \<and> m = 1))
           \<and> v = word_of_int (n * m)
           \<and> (- (2 ^ 63) \<le> n * m \<and> n * m < 2 ^ 63 \<longrightarrow> sint v = n * m)"
proof -
  define ds where "ds = (if HasSuffix s ''Ki'' \<or> HasSuffix s ''Mi'' \<or> HasSuffix s ''Gi''
                         then take (length s - 2) s else s)"
  define m :: int where "m = (if HasSuffix s ''Ki'' then 1024 else if HasSuffix s ''Mi'' then 1024 ^ 2
                         else if HasSuffix s ''Gi'' then 1024 ^ 3 else 1)"
  have eq: "parseMemoryLimit s = (case ParseInt ds of Inl e \<Rightarrow> Inl e | Inr mem \<Rightarrow> Inr (word_of_int (mem * m)))"
    unfolding ds_def m_def by (rule parseMemoryLimit_cases)
  from assms obtain n where n: "ParseInt ds = Inr n" and v: "v = word_of_int (n * m)"
    unfolding eq by (cases "ParseInt ds") auto
  have shape: "(s = ds @ ''Ki'' \<and> m = 1024) \<or> (s = ds @ ''Mi'' \<and> m = 1024 ^ 2)
               \<or> (s = ds @ ''Gi'' \<and> m = 1024 ^ 3) \<or> (s = ds \<and> m = 1)"
  proof (cases "HasSuffix s ''Ki''")
    case True
    then show ?thesis using HasSuffix_two [of s "CHR ''K''" "CHR ''i''"] by (simp add: ds_def m_def)
  next
    case ki: False
    show ?thesis
    proof (cases "HasSuffix s ''Mi''")
      case True
      then show ?thesis using ki HasSuffix_two [of s "CHR ''M''" "CHR ''i''"] by (simp add: ds_def m_def)
    next
      case mi: False
      show ?thesis
      proof (cases "HasSuffix s ''Gi''")
        case True
        then show ?thesis using ki mi HasSuffix_two [of s "CHR ''G''" "CHR ''i''"] by (simp add: ds_def m_def)
      next
        case False
        then show ?thesis using ki mi by (simp add: ds_def m_def)
      qed
    qed
  qed
  from ParseInt_sound [OF n] obtain sign digits where
    sd: "ds = sign @ digits" "sign = [] \<or> sign = ''+'' \<or> sign = ''-''" "digits \<noteq> []"
        "list_all is_digit digits"
        "n = (if sign = ''-'' then - int (decimal digits) else int (decimal digits))"
    by blast
  have shape': "(s = sign @ digits @ ''Ki'' \<and> m = 1024) \<or> (s = sign @ digits @ ''Mi'' \<and> m = 1024 ^ 2)
               \<or> (s = sign @ digits @ ''Gi'' \<and> m = 1024 ^ 3) \<or> (s = sign @ digits \<and> m = 1)"
    using shape by (simp add: sd(1))
  have p: "ParseInt (sign @ digits) = Inr n" using n by (simp only: sd(1))
  have exact: "- (2 ^ 63) \<le> n * m \<and> n * m < 2 ^ 63 \<longrightarrow> sint v = n * m"
    using v sint_int64_exact by blast
  show ?thesis
    by (intro exI [of _ sign] exI [of _ digits] exI [of _ n] exI [of _ m] conjI)
       (fact sd(2), fact sd(3), fact sd(4), fact sd(5), fact p, fact shape', fact v, fact exact)
qed

theorem parseMemoryLimit_value_witness:
  "parseMemoryLimit ''512Mi'' = Inr 536870912
   \<and> ParseInt ''512'' = Inr 512
   \<and> sint (536870912 :: 64 word) = 512 * 1024 ^ 2
   \<and> (\<exists>sign digits n m.
           (sign = [] \<or> sign = ''+'' \<or> sign = ''-'') \<and> digits \<noteq> [] \<and> list_all is_digit digits
           \<and> n = (if sign = ''-'' then - int (decimal digits) else int (decimal digits))
           \<and> ParseInt (sign @ digits) = Inr n
           \<and> ((''512Mi'' = sign @ digits @ ''Ki'' \<and> m = 1024)
               \<or> (''512Mi'' = sign @ digits @ ''Mi'' \<and> m = 1024 ^ 2)
               \<or> (''512Mi'' = sign @ digits @ ''Gi'' \<and> m = 1024 ^ 3)
               \<or> (''512Mi'' = sign @ digits \<and> m = 1))
           \<and> (536870912 :: 64 word) = word_of_int (n * m)
           \<and> (- (2 ^ 63) \<le> n * m \<and> n * m < 2 ^ 63 \<longrightarrow> sint (536870912 :: 64 word) = n * m))"
proof -
  have h: "parseMemoryLimit ''512Mi'' = Inr 536870912"
    by (simp add: parseMemoryLimit_def HasSuffix_def ParseInt_512)
  have e: "sint (536870912 :: 64 word) = 512 * 1024 ^ 2" by simp
  show ?thesis
    by (intro conjI) (fact h, fact ParseInt_512, fact e, rule parseMemoryLimit_value [OF h])
qed

text \<open>
  C8 as stated fails where the product leaves the 64-bit range: \<open>9007199254740992Ki\<close> is
  accepted, its number is \<open>2 ^ 53\<close>, and the value returned is not \<open>2 ^ 53 * 1024\<close> but
  \<open>- (2 ^ 63)\<close>.
\<close>

theorem parseMemoryLimit_overflow:
  "parseMemoryLimit ''9007199254740992Ki'' = Inr (word_of_int (- (2 ^ 63)))
   \<and> ParseInt ''9007199254740992'' = Inr 9007199254740992
   \<and> sint (word_of_int (- (2 ^ 63)) :: 64 word) = - 9223372036854775808
   \<and> sint (word_of_int (- (2 ^ 63)) :: 64 word) \<noteq> 9007199254740992 * 1024"
  by (simp add: parseMemoryLimit_def HasSuffix_def ParseInt_2_53 sint_sbintrunc' signed_take_bit_int_eq_self)

section \<open>Scaling a workload that is not stored (C9)\<close>

text \<open>
  C9. When no Deployment, or no StatefulSet, is stored under the name, the scale handler
  answers with status 200 and a \<open>Scale\<close> object that carries the requested replica count,
  not with a NotFound error, and every component of the server state is as before.
\<close>

theorem scale_absent_name_succeeds:
  "(map_of (deployments s) name = None \<longrightarrow>
      scaleDeploymentHandler s name (Some replicas)
        = (s, \<lparr>resp_status = 200, resp_body = ScaleJSON replicas\<rparr>))
   \<and> (map_of (statefulsets s) name = None \<longrightarrow>
      scaleStatefulSetHandler s name (Some replicas)
        = (s, \<lparr>resp_status = 200, resp_body = ScaleJSON replicas\<rparr>))"
  by (simp add: scaleDeploymentHandler_def scaleStatefulSetHandler_def StatusOK_def)

theorem scale_absent_name_succeeds_witness:
  "map_of (deployments empty_server) ''ghost'' = None
   \<and> map_of (statefulsets empty_server) ''ghost'' = None
   \<and> scaleDeploymentHandler empty_server ''ghost'' (Some 5)
        = (empty_server, \<lparr>resp_status = 200, resp_body = ScaleJSON 5\<rparr>)
   \<and> scaleStatefulSetHandler empty_server ''ghost'' (Some 5)
        = (empty_server, \<lparr>resp_status = 200, resp_body = ScaleJSON 5\<rparr>)"
proof -
  have d: "map_of (deployments empty_server) ''ghost'' = None" by (simp add: empty_server_def)
  have s: "map_of (statefulsets empty_server) ''ghost'' = None" by (simp add: empty_server_def)
  show ?thesis using d s scale_absent_name_succeeds [of empty_server "''ghost''" 5] by simp
qed

section \<open>Nodes and the snapshot (C10)\<close>

text \<open>
  C10. A tick of the node reporter leaves the storage as it was, and a server started
  from any disk, also one whose \<open>nodes\<close> directory holds a node file, has an empty node
  map: a Node is never written to the snapshot and never loaded from it.
\<close>

theorem nodes_only_in_memory:
  "storage (updateNodeStatus s now) = storage s
   \<and> (NewServer (storage (updateNodeStatus s now)) rt = Inr s' \<longrightarrow> nodes s' = [])
   \<and> (NewServer disk rt = Inr s'' \<longrightarrow> nodes s'' = [])"
  using updateNodeStatus_storage NewServer_nodes by blast

theorem nodes_only_in_memory_witness:
  "map fst (nodes (updateNodeStatus empty_server 50)) = [''local-node'']
   \<and> storage (updateNodeStatus empty_server 50) = empty_disk
   \<and> NewServer (storage (updateNodeStatus empty_server 50)) healthy_runtime = Inr empty_server
   \<and> nodes empty_server = []
   \<and> NewServer node_file_disk healthy_runtime = Inr (empty_server\<lparr>storage := node_file_disk\<rparr>)
   \<and> nodes (empty_server\<lparr>storage := node_file_disk\<rparr>) = []"
proof -
  have a: "map fst (nodes (updateNodeStatus empty_server 50)) = [''local-node'']"
    by (simp add: updateNodeStatus_def empty_server_def healthy_runtime_def GetSystemInfo_def)
  have b: "NewServer empty_disk healthy_runtime = Inr empty_server"
    by (simp add: empty_disk_def NewServer_def NewFileStorage_def loadState_def ListPods_def
          ListDeployments_def ListStatefulSets_def ListServices_def listObjects_def listFiles_def
          empty_server_def install_def)
  have c: "NewServer node_file_disk healthy_runtime = Inr (empty_server\<lparr>storage := node_file_disk\<rparr>)"
    by (simp add: node_file_disk_def empty_disk_def NewServer_def NewFileStorage_def loadState_def
          ListPods_def ListDeployments_def ListStatefulSets_def ListServices_def listObjects_def
          listFiles_def empty_server_def install_def)
  have d: "storage empty_server = empty_disk" by (simp add: empty_server_def)
  show ?thesis
    using a b c d
      nodes_only_in_memory [of empty_server 50 healthy_runtime empty_server node_file_disk
                               "empty_server\<lparr>storage := node_file_disk\<rparr>"]
    by simp
qed

end
